theory Spec2Isabelle
  imports Main
begin

section \<open>Double machine learning: the cross-fitting engine of econml/dml.py\<close>

text \<open>
  The development follows \<^verbatim>\<open>src/econml/dml.py\<close>: the orthogonal learner
  \<^verbatim>\<open>_RLearner\<close> (cross-fitting of the nuisance models, residuals, final fit), the
  wrappers that \<^verbatim>\<open>_DMLCateEstimatorBase\<close> builds around the caller's models, and the
  three configurations. Exceptions are values of the type \<open>error\<close>; an object that a
  method mutates is a state passed in and returned.
\<close>

subsection \<open>Exceptions\<close>

datatype error =
    AssertionError
  | ValueError
  | IndexError
  | TypeError
  | AttributeError string
  | NameError string
  | ModelError string

definition and_then :: "error + 'a \<Rightarrow> ('a \<Rightarrow> error + 'b) \<Rightarrow> error + 'b" where
  "and_then r f = (case r of Inl e \<Rightarrow> Inl e | Inr x \<Rightarrow> f x)"

subsection \<open>Arrays\<close>

text \<open>
  A numpy array is its shape and its elements in row-major (C) order. The elements are
  taken from a commutative ring: the arithmetic of the estimator is subtraction in
  \<^verbatim>\<open>fit\<close> and multiplication in the designs, and rounding is not looked at.
\<close>

datatype 'a ndarray = NDArray (shape: "nat list") (data: "'a list")


definition ndim :: "'a ndarray \<Rightarrow> nat" where
  "ndim a = length (shape a)"

text \<open>\<^verbatim>\<open>shape(A)[0]\<close>: a tuple index out of range on an array without axes.\<close>

definition dim0 :: "'a ndarray \<Rightarrow> error + nat" where
  "dim0 a = (case shape a of [] \<Rightarrow> Inl IndexError | n # trailing \<Rightarrow> Inr n)"

fun unravel :: "nat list \<Rightarrow> nat \<Rightarrow> nat list" where
  "unravel [] k = []"
| "unravel (s # ss) k = (k div prod_list ss) # unravel ss (k mod prod_list ss)"

fun ravel :: "nat list \<Rightarrow> nat list \<Rightarrow> nat" where
  "ravel (s # ss) (i # is) = i * prod_list ss + ravel ss is"
| "ravel ss is = 0"

definition zeros :: "nat list \<Rightarrow> 'a::zero ndarray" where
  "zeros s = NDArray s (replicate (prod_list s) 0)"

definition ones :: "nat list \<Rightarrow> 'a::one ndarray" where
  "ones s = NDArray s (replicate (prod_list s) 1)"

definition eye :: "nat \<Rightarrow> 'a::{zero,one} ndarray" where
  "eye n = NDArray [n, n] (map (\<lambda>k. if k div n = k mod n then 1 else 0) [0..<n * n])"

subsubsection \<open>Rows: \<^verbatim>\<open>A[idxs]\<close> and \<^verbatim>\<open>A[idxs] = V\<close>\<close>

definition row_size :: "'a ndarray \<Rightarrow> nat" where
  "row_size a = prod_list (tl (shape a))"

definition row :: "'a ndarray \<Rightarrow> nat \<Rightarrow> 'a list" where
  "row a i = take (row_size a) (drop (i * row_size a) (data a))"

definition getitem :: "'a ndarray \<Rightarrow> nat list \<Rightarrow> error + 'a ndarray" where
  "getitem a idxs =
     (case shape a of
        [] \<Rightarrow> Inl IndexError
      | n # trailing \<Rightarrow>
          if \<forall>i\<in>set idxs. i < n
          then Inr (NDArray (length idxs # trailing) (concat (map (row a) idxs)))
          else Inl IndexError)"

text \<open>
  Broadcasting. A shape can be broadcast to a target when, aligned at the last axis, each
  of its axes has the target's length or length one; an assignment also lets a value drop
  leading axes of length one that the target does not have.
\<close>

fun broadcastable_rev :: "nat list \<Rightarrow> nat list \<Rightarrow> bool" where
  "broadcastable_rev [] ts = True"
| "broadcastable_rev (s # ss) [] = False"
| "broadcastable_rev (s # ss) (t # ts) = ((s = t \<or> s = 1) \<and> broadcastable_rev ss ts)"

definition broadcastable :: "nat list \<Rightarrow> nat list \<Rightarrow> bool" where
  "broadcastable s t = broadcastable_rev (rev s) (rev t)"

definition broadcast_to :: "nat list \<Rightarrow> 'a ndarray \<Rightarrow> error + 'a ndarray" where
  "broadcast_to t a =
     (if broadcastable (shape a) t
      then let padded = replicate (length t - ndim a) 1 @ shape a
           in Inr (NDArray t
                (map (\<lambda>k. data a ! ravel padded
                          (map2 (\<lambda>s i. if s = 1 then 0 else i) padded (unravel t k)))
                   [0..<prod_list t]))
      else Inl ValueError)"

fun broadcast_shapes_rev :: "nat list \<Rightarrow> nat list \<Rightarrow> nat list option" where
  "broadcast_shapes_rev [] ts = Some ts"
| "broadcast_shapes_rev (s # ss) [] = Some (s # ss)"
| "broadcast_shapes_rev (s # ss) (t # ts) =
     (if s = t \<or> t = 1 then map_option ((#) s) (broadcast_shapes_rev ss ts)
      else if s = 1 then map_option ((#) t) (broadcast_shapes_rev ss ts)
      else None)"

definition broadcast_shapes :: "nat list \<Rightarrow> nat list \<Rightarrow> nat list option" where
  "broadcast_shapes s t = map_option rev (broadcast_shapes_rev (rev s) (rev t))"

text \<open>\<^verbatim>\<open>A - B\<close> on arrays.\<close>

definition nd_sub :: "'a::minus ndarray \<Rightarrow> 'a ndarray \<Rightarrow> error + 'a ndarray" where
  "nd_sub a b =
     (case broadcast_shapes (shape a) (shape b) of
        None \<Rightarrow> Inl ValueError
      | Some s \<Rightarrow>
          and_then (broadcast_to s a) (\<lambda>a'.
          and_then (broadcast_to s b) (\<lambda>b'.
          Inr (NDArray s (map2 (-) (data a') (data b'))))))"

fun strip_leading_ones :: "nat \<Rightarrow> nat list \<Rightarrow> nat list" where
  "strip_leading_ones r (s # ss) =
     (if r < length (s # ss) \<and> s = 1 then strip_leading_ones r ss else s # ss)"
| "strip_leading_ones r [] = []"

definition write_row :: "nat \<Rightarrow> 'a list \<Rightarrow> nat \<Rightarrow> 'a list \<Rightarrow> 'a list" where
  "write_row rs d i r = take (i * rs) d @ r @ drop (Suc i * rs) d"

fun write_rows :: "nat \<Rightarrow> 'a ndarray \<Rightarrow> nat \<Rightarrow> nat list \<Rightarrow> 'a list \<Rightarrow> 'a list" where
  "write_rows rs v j [] d = d"
| "write_rows rs v j (i # idxs) d = write_rows rs v (Suc j) idxs (write_row rs d i (row v j))"

definition setitem :: "'a ndarray \<Rightarrow> nat list \<Rightarrow> 'a ndarray \<Rightarrow> error + 'a ndarray" where
  "setitem a idxs v =
     (case shape a of
        [] \<Rightarrow> Inl IndexError
      | n # trailing \<Rightarrow>
          if \<forall>i\<in>set idxs. i < n
          then and_then
                 (broadcast_to (length idxs # trailing)
                    (NDArray (strip_leading_ones (Suc (length trailing)) (shape v)) (data v)))
                 (\<lambda>v'. Inr (NDArray (shape a) (write_rows (row_size a) v' 0 idxs (data a))))
          else Inl IndexError)"

subsubsection \<open>Reshaping, Kronecker product, transposition, stacking\<close>

text \<open>
  \<^verbatim>\<open>reshape(A, newshape)\<close>: one entry of the new shape may be \<open>-1\<close> and is then
  inferred; numpy refuses to infer it when the other entries multiply to zero or do not
  divide the size.
\<close>

definition reshape :: "'a ndarray \<Rightarrow> int list \<Rightarrow> error + 'a ndarray" where
  "reshape a newshape =
     (let size = prod_list (shape a);
          known = prod_list (map nat (filter (\<lambda>d. 0 \<le> d) newshape));
          unknown = length (filter (\<lambda>d. d < 0) newshape)
      in if 1 < unknown then Inl ValueError
         else if unknown = 1
         then (if known = 0 \<or> size mod known \<noteq> 0 then Inl ValueError
               else Inr (NDArray (map (\<lambda>d. if d < 0 then size div known else nat d) newshape)
                          (data a)))
         else if known \<noteq> size then Inl ValueError
         else Inr (NDArray (map nat newshape) (data a)))"

text \<open>
  \<^verbatim>\<open>np.kron(A, B)\<close>: the operand with fewer axes gets leading axes of length one; the
  result has the products of the lengths, and its entry at \<open>I\<close> is
  \<open>A[I div shape B] * B[I mod shape B]\<close>.
\<close>

definition kron :: "'a::times ndarray \<Rightarrow> 'a ndarray \<Rightarrow> 'a ndarray" where
  "kron a b =
     (let nd = max (ndim a) (ndim b);
          sa = replicate (nd - ndim a) 1 @ shape a;
          sb = replicate (nd - ndim b) 1 @ shape b;
          s = map2 (*) sa sb
      in NDArray s
           (map (\<lambda>k. data a ! ravel sa (map2 (div) (unravel s k) sb)
                     * data b ! ravel sb (map2 (mod) (unravel s k) sb))
              [0..<prod_list s]))"

fun position :: "nat \<Rightarrow> nat list \<Rightarrow> nat" where
  "position x [] = 0"
| "position x (y # ys) = (if x = y then 0 else Suc (position x ys))"

text \<open>\<^verbatim>\<open>transpose(A, axes)\<close>: axis \<open>k\<close> of the result is axis \<open>axes[k]\<close> of \<open>A\<close>.\<close>

definition transpose_nd :: "'a ndarray \<Rightarrow> nat list \<Rightarrow> error + 'a ndarray" where
  "transpose_nd a axes =
     (if length axes = ndim a \<and> distinct axes \<and> (\<forall>ax\<in>set axes. ax < ndim a)
      then let s = map (\<lambda>ax. shape a ! ax) axes
           in Inr (NDArray s
                (map (\<lambda>k. data a ! ravel (shape a)
                             (map (\<lambda>ax. unravel s k ! position ax axes) [0..<ndim a]))
                   [0..<prod_list s]))
      else Inl ValueError)"

definition atleast_1d :: "'a ndarray \<Rightarrow> 'a ndarray" where
  "atleast_1d a = (if shape a = [] then NDArray [1] (data a) else a)"

text \<open>
  \<^verbatim>\<open>hstack\<close>: vectors are joined end to end; arrays with two or more axes are joined
  along the second axis and must agree on all the others.
\<close>

definition hstack :: "'a ndarray list \<Rightarrow> error + 'a ndarray" where
  "hstack XS =
     (let arrs = map atleast_1d XS
      in case arrs of
           [] \<Rightarrow> Inl ValueError
         | a # rest \<Rightarrow>
             if ndim a = 1
             then (if \<forall>b\<in>set rest. ndim b = 1
                   then Inr (NDArray [sum_list (map (\<lambda>b. hd (shape b)) arrs)]
                              (concat (map data arrs)))
                   else Inl ValueError)
             else (if \<forall>b\<in>set rest. ndim b = ndim a \<and> hd (shape b) = hd (shape a)
                                      \<and> drop 2 (shape b) = drop 2 (shape a)
                   then Inr (NDArray
                              (hd (shape a) # sum_list (map (\<lambda>b. shape b ! 1) arrs)
                                 # drop 2 (shape a))
                              (concat (map (\<lambda>i. concat (map (\<lambda>b. row b i) arrs))
                                         [0..<hd (shape a)])))
                   else Inl ValueError))"

text \<open>
  Modelled from the spec: \<^verbatim>\<open>cross_product\<close> of the module \<^verbatim>\<open>econml.utilities\<close>,
  which is not among the sources. The spec has the final model fit on
  cross-product(featurize(X), T_res) and its coefficients read back in the shape
  (d_y, d_t, feature_width), every treatment dimension owning one coefficient block of
  the width of the features: in a row of the product the first operand's columns run
  fastest, column \<open>j * d1 + i\<close> holding \<open>X1[t, i] * X2[t, j]\<close>. A vector counts as a
  matrix of one column; the operands must have one or two axes and the same number of
  rows.
\<close>

definition columns :: "'a ndarray \<Rightarrow> nat" where
  "columns a = (if ndim a = 1 then 1 else shape a ! 1)"

definition cross_product :: "'a::times ndarray \<Rightarrow> 'a ndarray \<Rightarrow> error + 'a ndarray" where
  "cross_product X1 X2 =
     (if 1 \<le> ndim X1 \<and> ndim X1 \<le> 2 \<and> 1 \<le> ndim X2 \<and> ndim X2 \<le> 2
         \<and> hd (shape X1) = hd (shape X2)
      then Inr (NDArray [hd (shape X1), columns X1 * columns X2]
             (concat (map (\<lambda>t. concat (map (\<lambda>j. map (\<lambda>i. row X1 t ! i * row X2 t ! j)
                                                  [0..<columns X1])
                                         [0..<columns X2]))
                        [0..<hd (shape X1)])))
      else Inl AssertionError)"

subsection \<open>The splitter: scikit-learn's \<^verbatim>\<open>KFold(n_splits).split(X)\<close>\<close>

text \<open>
  \<^verbatim>\<open>fit\<close> iterates over \<^verbatim>\<open>KFold(self._n_splits).split(X)\<close> with the defaults of
  \<^verbatim>\<open>KFold\<close> (no shuffling). The class belongs to scikit-learn; the definitions below
  follow its behaviour: the constructor rejects \<^verbatim>\<open>n_splits <= 1\<close>, \<^verbatim>\<open>split\<close>
  rejects more splits than samples, the first \<^verbatim>\<open>n_samples % n_splits\<close> folds have
  \<^verbatim>\<open>n_samples // n_splits + 1\<close> consecutive indices and the others
  \<^verbatim>\<open>n_samples // n_splits\<close>, and the training indices of a fold are all the other
  indices in increasing order.
\<close>

definition fold_sizes :: "nat \<Rightarrow> nat \<Rightarrow> nat list" where
  "fold_sizes n_splits n_samples =
     map (\<lambda>j. n_samples div n_splits + (if j < n_samples mod n_splits then 1 else 0))
       [0..<n_splits]"

fun iter_test_indices :: "nat \<Rightarrow> nat list \<Rightarrow> nat list list" where
  "iter_test_indices current [] = []"
| "iter_test_indices current (fold_size # rest) =
     [current..<current + fold_size] # iter_test_indices (current + fold_size) rest"

definition train_of :: "nat \<Rightarrow> nat list \<Rightarrow> nat list" where
  "train_of n_samples test = filter (\<lambda>i. i \<notin> set test) [0..<n_samples]"

definition KFold_split :: "int \<Rightarrow> nat \<Rightarrow> error + (nat list \<times> nat list) list" where
  "KFold_split n_splits n_samples =
     (if n_splits \<le> 1 then Inl ValueError
      else if n_splits > int n_samples then Inl ValueError
      else Inr (map (\<lambda>test. (train_of n_samples test, test))
                 (iter_test_indices 0 (fold_sizes (nat n_splits) n_samples))))"

subsection \<open>The orthogonal learner \<^verbatim>\<open>_RLearner\<close>\<close>

text \<open>
  The nuisance models and the final model are the caller's objects. Such an object is a
  state, and its class is the record of its methods: a method takes the state and returns
  its outcome together with the state it leaves behind, also when it raises.
\<close>

record ('m, 'a) nuisance_ops =
  nfit :: "'m \<Rightarrow> 'a ndarray \<Rightarrow> 'a ndarray \<Rightarrow> 'a ndarray \<Rightarrow> error option \<times> 'm"
  npredict :: "'m \<Rightarrow> 'a ndarray \<Rightarrow> 'a ndarray \<Rightarrow> (error + 'a ndarray) \<times> 'm"

record ('f, 'a) final_ops =
  ffit :: "'f \<Rightarrow> 'a ndarray \<Rightarrow> 'a ndarray \<Rightarrow> 'a ndarray \<Rightarrow> error option \<times> 'f"
  fpredict :: "'f \<Rightarrow> 'a ndarray \<Rightarrow> (error + 'a ndarray) \<times> 'f"

record ('my, 'mt, 'f) RLearner =
  models_y :: "'my list"
  models_t :: "'mt list"
  model_final :: 'f
  n_splits :: int

text \<open>\<^verbatim>\<open>__init__\<close>: \<^verbatim>\<open>n_splits\<close> clones of each nuisance model, one of the final model.\<close>

definition RLearner_init ::
  "('my \<Rightarrow> 'my) \<Rightarrow> ('mt \<Rightarrow> 'mt) \<Rightarrow> ('f \<Rightarrow> 'f) \<Rightarrow> 'my \<Rightarrow> 'mt \<Rightarrow> 'f \<Rightarrow> int
     \<Rightarrow> ('my, 'mt, 'f) RLearner" where
  "RLearner_init clone_y clone_t clone_f model_y model_t final splits =
     \<lparr>models_y = map (\<lambda>_. clone_y model_y) [0..<nat splits],
      models_t = map (\<lambda>_. clone_t model_t) [0..<nat splits],
      model_final = clone_f final,
      n_splits = splits\<rparr>"

text \<open>
  Lines 72-73 and 74-75 of \<^verbatim>\<open>fit\<close> do the same for the two targets:
  \<^verbatim>\<open>models[idx].fit(X_train, W_train, Target_train)\<close>, then
  \<^verbatim>\<open>res[test_idxs] = Target_test - models[idx].predict(X_test, W_test)\<close>.
\<close>

definition fit_and_residual ::
  "('m, 'a::minus) nuisance_ops \<Rightarrow> 'm list \<Rightarrow> nat \<Rightarrow> 'a ndarray \<Rightarrow> 'a ndarray \<Rightarrow> 'a ndarray
     \<Rightarrow> 'a ndarray \<Rightarrow> 'a ndarray \<Rightarrow> 'a ndarray \<Rightarrow> 'a ndarray \<Rightarrow> nat list
     \<Rightarrow> (error + 'a ndarray) \<times> 'm list" where
  "fit_and_residual ops models idx X_train W_train Target_train X_test W_test Target_test
     res test_idxs =
     (if idx < length models
      then (case nfit ops (models ! idx) X_train W_train Target_train of
              (Some e, m1) \<Rightarrow> (Inl e, models[idx := m1])
            | (None, m1) \<Rightarrow>
                (case npredict ops m1 X_test W_test of
                   (Inl e, m2) \<Rightarrow> (Inl e, models[idx := m2])
                 | (Inr p, m2) \<Rightarrow>
                     (and_then (nd_sub Target_test p) (\<lambda>d. setitem res test_idxs d),
                      models[idx := m2])))
      else (Inl IndexError, models))"

text \<open>The rows of the four inputs that a fold trains and tests on (lines 65-68).\<close>

definition fold_rows ::
  "'a ndarray \<Rightarrow> 'a ndarray \<Rightarrow> 'a ndarray \<Rightarrow> 'a ndarray \<Rightarrow> nat list \<Rightarrow> nat list
     \<Rightarrow> error + (('a ndarray \<times> 'a ndarray) \<times> ('a ndarray \<times> 'a ndarray)
                 \<times> ('a ndarray \<times> 'a ndarray) \<times> ('a ndarray \<times> 'a ndarray))" where
  "fold_rows Y T X W train_idxs test_idxs =
     and_then (getitem Y train_idxs) (\<lambda>Y_train. and_then (getitem Y test_idxs) (\<lambda>Y_test.
     and_then (getitem T train_idxs) (\<lambda>T_train. and_then (getitem T test_idxs) (\<lambda>T_test.
     and_then (getitem X train_idxs) (\<lambda>X_train. and_then (getitem X test_idxs) (\<lambda>X_test.
     and_then (getitem W train_idxs) (\<lambda>W_train. and_then (getitem W test_idxs) (\<lambda>W_test.
     Inr ((Y_train, Y_test), (T_train, T_test), (X_train, X_test), (W_train, W_test))))))))))"

text \<open>The body of the loop, on the estimator and the two residual arrays.\<close>

definition fold_step ::
  "('my, 'a::minus) nuisance_ops \<Rightarrow> ('mt, 'a) nuisance_ops
     \<Rightarrow> 'a ndarray \<Rightarrow> 'a ndarray \<Rightarrow> 'a ndarray \<Rightarrow> 'a ndarray \<Rightarrow> nat \<Rightarrow> nat list \<Rightarrow> nat list
     \<Rightarrow> ('my, 'mt, 'f) RLearner \<times> 'a ndarray \<times> 'a ndarray
     \<Rightarrow> error option \<times> ('my, 'mt, 'f) RLearner \<times> 'a ndarray \<times> 'a ndarray" where
  "fold_step ops_y ops_t Y T X W idx train_idxs test_idxs st =
     (case st of (self, t_res, y_res) \<Rightarrow>
        (case fold_rows Y T X W train_idxs test_idxs of
           Inl e \<Rightarrow> (Some e, st)
         | Inr ((Y_train, Y_test), (T_train, T_test), (X_train, X_test), (W_train, W_test)) \<Rightarrow>
             (case fit_and_residual ops_t (models_t self) idx X_train W_train T_train
                     X_test W_test T_test t_res test_idxs of
                (Inl e, ms_t) \<Rightarrow> (Some e, self\<lparr>models_t := ms_t\<rparr>, t_res, y_res)
              | (Inr t_res', ms_t) \<Rightarrow>
                  (case fit_and_residual ops_y (models_y self) idx X_train W_train Y_train
                          X_test W_test Y_test y_res test_idxs of
                     (Inl e, ms_y) \<Rightarrow>
                       (Some e, self\<lparr>models_t := ms_t, models_y := ms_y\<rparr>, t_res', y_res)
                   | (Inr y_res', ms_y) \<Rightarrow>
                       (None, self\<lparr>models_t := ms_t, models_y := ms_y\<rparr>, t_res', y_res')))))"

text \<open>\<^verbatim>\<open>for idx, (train_idxs, test_idxs) in enumerate(...)\<close>\<close>

fun cross_fit ::
  "('my, 'a::minus) nuisance_ops \<Rightarrow> ('mt, 'a) nuisance_ops
     \<Rightarrow> 'a ndarray \<Rightarrow> 'a ndarray \<Rightarrow> 'a ndarray \<Rightarrow> 'a ndarray \<Rightarrow> nat \<Rightarrow> (nat list \<times> nat list) list
     \<Rightarrow> ('my, 'mt, 'f) RLearner \<times> 'a ndarray \<times> 'a ndarray
     \<Rightarrow> error option \<times> ('my, 'mt, 'f) RLearner \<times> 'a ndarray \<times> 'a ndarray" where
  "cross_fit ops_y ops_t Y T X W idx [] st = (None, st)"
| "cross_fit ops_y ops_t Y T X W idx ((train_idxs, test_idxs) # rest) st =
     (case fold_step ops_y ops_t Y T X W idx train_idxs test_idxs st of
        (Some e, st') \<Rightarrow> (Some e, st')
      | (None, st') \<Rightarrow> cross_fit ops_y ops_t Y T X W (Suc idx) rest st')"

text \<open>
  What \<^verbatim>\<open>fit\<close> does before the loop: the defaults of \<^verbatim>\<open>X\<close> and \<^verbatim>\<open>W\<close>, the
  assertion on the row counts (a chained comparison, evaluated from the left), and the
  splitter, which raises before it yields its first fold.
\<close>

definition fit_inputs ::
  "int \<Rightarrow> 'a::one ndarray \<Rightarrow> 'a ndarray \<Rightarrow> 'a ndarray option \<Rightarrow> 'a ndarray option
     \<Rightarrow> error + ('a ndarray \<times> 'a ndarray \<times> (nat list \<times> nat list) list)" where
  "fit_inputs splits Y T X_opt W_opt =
     and_then (case X_opt of None \<Rightarrow> and_then (dim0 Y) (\<lambda>n. Inr (ones [n, 1]))
               | Some X \<Rightarrow> Inr X) (\<lambda>X.
     and_then (case W_opt of None \<Rightarrow> and_then (dim0 Y) (\<lambda>n. Inr (NDArray [n, 0] []))
               | Some W \<Rightarrow> Inr W) (\<lambda>W.
     and_then (dim0 Y) (\<lambda>n_y. and_then (dim0 T) (\<lambda>n_t.
     if n_y \<noteq> n_t then Inl AssertionError
     else and_then (dim0 X) (\<lambda>n_x.
     if n_t \<noteq> n_x then Inl AssertionError
     else and_then (dim0 W) (\<lambda>n_w.
     if n_x \<noteq> n_w then Inl AssertionError
     else and_then (KFold_split splits n_x) (\<lambda>folds. Inr (X, W, folds))))))))"

definition RLearner_fit ::
  "('my, 'a::{minus,zero,one}) nuisance_ops \<Rightarrow> ('mt, 'a) nuisance_ops \<Rightarrow> ('f, 'a) final_ops
     \<Rightarrow> ('my, 'mt, 'f) RLearner \<Rightarrow> 'a ndarray \<Rightarrow> 'a ndarray
     \<Rightarrow> 'a ndarray option \<Rightarrow> 'a ndarray option
     \<Rightarrow> error option \<times> ('my, 'mt, 'f) RLearner" where
  "RLearner_fit ops_y ops_t ops_f self Y T X_opt W_opt =
     (case fit_inputs (n_splits self) Y T X_opt W_opt of
        Inl e \<Rightarrow> (Some e, self)
      | Inr (X, W, folds) \<Rightarrow>
          (case cross_fit ops_y ops_t Y T X W 0 folds (self, zeros (shape T), zeros (shape Y)) of
             (Some e, self', t_res, y_res) \<Rightarrow> (Some e, self')
           | (None, self', t_res, y_res) \<Rightarrow>
               (case ffit ops_f (model_final self') X t_res y_res of
                  (r, f') \<Rightarrow> (r, self'\<lparr>model_final := f'\<rparr>))))"

definition RLearner_const_marginal_effect ::
  "('f, 'a::one) final_ops \<Rightarrow> ('my, 'mt, 'f) RLearner \<Rightarrow> 'a ndarray option
     \<Rightarrow> (error + 'a ndarray) \<times> ('my, 'mt, 'f) RLearner" where
  "RLearner_const_marginal_effect ops_f self X_opt =
     (let X = (case X_opt of None \<Rightarrow> ones [1, 1] | Some X \<Rightarrow> X)
      in case fpredict ops_f (model_final self) X of
           (r, f') \<Rightarrow> (r, self\<lparr>model_final := f'\<rparr>))"

subsection \<open>The wrappers of \<^verbatim>\<open>_DMLCateEstimatorBase\<close>\<close>

text \<open>
  The wrapped models follow the scikit-learn interface: \<^verbatim>\<open>fit(design, target)\<close>
  changes the model, \<^verbatim>\<open>predict(design)\<close> reads it, and \<^verbatim>\<open>coef_\<close> is an attribute
  that a model may lack. The featurizer has the one method \<^verbatim>\<open>fit_transform\<close>, which
  fits it anew on every call: it is a state too, shared by all the wrappers of an
  estimator.
\<close>

record ('m, 'a) model_ops =
  mfit :: "'m \<Rightarrow> 'a ndarray \<Rightarrow> 'a ndarray \<Rightarrow> error option \<times> 'm"
  mpredict :: "'m \<Rightarrow> 'a ndarray \<Rightarrow> error + 'a ndarray"
  mcoef :: "'m \<Rightarrow> 'a ndarray option"

type_synonym ('z, 'a) fit_transform = "'z \<Rightarrow> 'a ndarray \<Rightarrow> (error + 'a ndarray) \<times> 'z"

record 'm FirstStageWrapper =
  model :: 'm
  is_Y :: bool

text \<open>\<^verbatim>\<open>FirstStageWrapper.__deepcopy__\<close>, which \<^verbatim>\<open>clone(..., safe=False)\<close> ends in.\<close>

definition FirstStageWrapper_deepcopy ::
  "('m \<Rightarrow> 'm) \<Rightarrow> 'm FirstStageWrapper \<Rightarrow> 'm FirstStageWrapper" where
  "FirstStageWrapper_deepcopy clone self = \<lparr>model = clone (model self), is_Y = is_Y self\<rparr>"

definition combine ::
  "('z, 'a::{times,one}) fit_transform \<Rightarrow> bool \<Rightarrow> 'm FirstStageWrapper \<Rightarrow> 'z
     \<Rightarrow> 'a ndarray \<Rightarrow> 'a ndarray \<Rightarrow> (error + 'a ndarray) \<times> 'z" where
  "combine fit_transform sparseLinear self featurizer X W =
     (if is_Y self \<and> sparseLinear
      then (case hstack [X, W] of
              Inl e \<Rightarrow> (Inl e, featurizer)
            | Inr XW \<Rightarrow>
                (case fit_transform featurizer X of
                   (Inl e, featurizer') \<Rightarrow> (Inl e, featurizer')
                 | (Inr F, featurizer') \<Rightarrow>
                     (and_then (dim0 XW) (\<lambda>n.
                      and_then (hstack [ones [n, 1], F, W]) (\<lambda>B. cross_product XW B)),
                      featurizer')))
      else (case fit_transform featurizer X of
              (Inl e, featurizer') \<Rightarrow> (Inl e, featurizer')
            | (Inr F, featurizer') \<Rightarrow> (hstack [F, W], featurizer')))"

text \<open>
  \<^verbatim>\<open>fit\<close> and \<^verbatim>\<open>predict\<close> of a nuisance wrapper. The featurizer is not the wrapper's
  own: it is the variable of \<^verbatim>\<open>__init__\<close> that the methods capture, so the state it is
  in arrives as an argument and the state the call leaves it in is returned.
\<close>

definition FirstStageWrapper_fit ::
  "('z, 'a::{times,one}) fit_transform \<Rightarrow> bool \<Rightarrow> ('m, 'a) model_ops
     \<Rightarrow> 'm FirstStageWrapper \<Rightarrow> 'z \<Rightarrow> 'a ndarray \<Rightarrow> 'a ndarray \<Rightarrow> 'a ndarray
     \<Rightarrow> error option \<times> 'm FirstStageWrapper \<times> 'z" where
  "FirstStageWrapper_fit fit_transform sparseLinear ops self featurizer X W Target =
     (case combine fit_transform sparseLinear self featurizer X W of
        (Inl e, featurizer') \<Rightarrow> (Some e, self, featurizer')
      | (Inr design, featurizer') \<Rightarrow>
          (case mfit ops (model self) design Target of
             (r, m') \<Rightarrow> (r, self\<lparr>model := m'\<rparr>, featurizer')))"

definition FirstStageWrapper_predict ::
  "('z, 'a::{times,one}) fit_transform \<Rightarrow> bool \<Rightarrow> ('m, 'a) model_ops
     \<Rightarrow> 'm FirstStageWrapper \<Rightarrow> 'z \<Rightarrow> 'a ndarray \<Rightarrow> 'a ndarray
     \<Rightarrow> (error + 'a ndarray) \<times> 'm FirstStageWrapper \<times> 'z" where
  "FirstStageWrapper_predict fit_transform sparseLinear ops self featurizer X W =
     (case combine fit_transform sparseLinear self featurizer X W of
        (Inl e, featurizer') \<Rightarrow> (Inl e, self, featurizer')
      | (Inr design, featurizer') \<Rightarrow> (mpredict ops (model self) design, self, featurizer'))"

text \<open>
  The final wrapper: its two attributes, absent until \<^verbatim>\<open>fit\<close> sets them, and the
  variables \<^verbatim>\<open>model_final\<close> and \<^verbatim>\<open>featurizer\<close> that its methods capture. The
  field \<open>featurizer\<close> is the place of the estimator's one featurizer: the methods of the
  nuisance wrappers are run on it too (see the configurations below).
\<close>

record ('m, 'z) FinalWrapper =
  d_t :: "nat list option"
  d_y :: "nat list option"
  final_model :: 'm
  featurizer :: 'z

definition FinalWrapper_new :: "'m \<Rightarrow> 'z \<Rightarrow> ('m, 'z) FinalWrapper" where
  "FinalWrapper_new m z = \<lparr>d_t = None, d_y = None, final_model = m, featurizer = z\<rparr>"

definition FinalWrapper_fit ::
  "('z, 'a::times) fit_transform \<Rightarrow> ('m, 'a) model_ops \<Rightarrow> ('m, 'z) FinalWrapper
     \<Rightarrow> 'a ndarray \<Rightarrow> 'a ndarray \<Rightarrow> 'a ndarray \<Rightarrow> error option \<times> ('m, 'z) FinalWrapper" where
  "FinalWrapper_fit fit_transform ops self X T_res Y_res =
     (let self1 = self\<lparr>d_t := Some (tl (shape T_res)), d_y := Some (tl (shape Y_res))\<rparr>
      in case fit_transform (featurizer self1) X of
           (Inl e, z) \<Rightarrow> (Some e, self1\<lparr>featurizer := z\<rparr>)
         | (Inr F, z) \<Rightarrow>
             (case cross_product F T_res of
                Inl e \<Rightarrow> (Some e, self1\<lparr>featurizer := z\<rparr>)
              | Inr design \<Rightarrow>
                  (case mfit ops (final_model self1) design Y_res of
                     (r, m') \<Rightarrow> (r, self1\<lparr>featurizer := z, final_model := m'\<rparr>))))"

text \<open>
  \<^verbatim>\<open>predict\<close>: reading \<^verbatim>\<open>self._d_t\<close> of a wrapper that was never fit raises
  \<^verbatim>\<open>AttributeError\<close>. A non-empty tuple is true in a condition.
\<close>

definition FinalWrapper_predict ::
  "('z, 'a::{times,zero,one}) fit_transform \<Rightarrow> ('m, 'a) model_ops \<Rightarrow> ('m, 'z) FinalWrapper
     \<Rightarrow> 'a ndarray \<Rightarrow> (error + 'a ndarray) \<times> ('m, 'z) FinalWrapper" where
  "FinalWrapper_predict fit_transform ops self X =
     (case d_t self of
        None \<Rightarrow> (Inl (AttributeError ''_d_t''), self)
      | Some dt \<Rightarrow>
          (case reshape (if dt \<noteq> [] then eye (hd dt) else NDArray [1] [1]) [1, - 1] of
             Inl e \<Rightarrow> (Inl e, self)
           | Inr flat_eye \<Rightarrow>
               (case fit_transform (featurizer self) X of
                  (Inl e, z) \<Rightarrow> (Inl e, self\<lparr>featurizer := z\<rparr>)
                | (Inr F, z) \<Rightarrow>
                    (and_then (dim0 X) (\<lambda>m.
                     and_then (reshape (kron flat_eye F)
                                 [int ((if dt \<noteq> [] then hd dt else 1) * m), - 1]) (\<lambda>XT.
                     and_then (mpredict ops (final_model self) XT) (\<lambda>P.
                     and_then (case d_y self of None \<Rightarrow> Inl (AttributeError ''_d_y'')
                               | Some dy \<Rightarrow> Inr dy) (\<lambda>dy.
                     and_then (reshape P (- 1 # map int dt @ map int dy)) (\<lambda>effects.
                     if dt \<noteq> [] \<and> dy \<noteq> [] then transpose_nd effects [0, 2, 1]
                     else Inr effects))))),
                     self\<lparr>featurizer := z\<rparr>))))"

text \<open>The property \<^verbatim>\<open>coef_\<close> of the wrapper, and of the estimator, which hands it on.\<close>

definition FinalWrapper_coef ::
  "('m, 'a) model_ops \<Rightarrow> ('m, 'z) FinalWrapper \<Rightarrow> error + 'a ndarray" where
  "FinalWrapper_coef ops self =
     (case mcoef ops (final_model self) of
        None \<Rightarrow> Inl (AttributeError ''coef_'')
      | Some c \<Rightarrow>
          (case d_y self of
             None \<Rightarrow> Inl (AttributeError ''_d_y'')
           | Some dy \<Rightarrow>
               (case d_t self of
                  None \<Rightarrow> Inl (AttributeError ''_d_t'')
                | Some dt \<Rightarrow> reshape c (map int dy @ map int dt @ [- 1]))))"

definition FinalWrapper_ops ::
  "('z, 'a::{times,zero,one}) fit_transform \<Rightarrow> ('m, 'a) model_ops
     \<Rightarrow> (('m, 'z) FinalWrapper, 'a) final_ops" where
  "FinalWrapper_ops fit_transform ops =
     \<lparr>ffit = FinalWrapper_fit fit_transform ops,
      fpredict = FinalWrapper_predict fit_transform ops\<rparr>"

subsection \<open>The configurations\<close>

text \<open>
  An estimator of the family is the learner over the wrappers together with the flag
  \<^verbatim>\<open>sparseLinear\<close> that the wrappers' methods capture.
\<close>

record ('my, 'mt, 'm, 'z) DMLCateEstimatorBase =
  learner :: "('my FirstStageWrapper, 'mt FirstStageWrapper, ('m, 'z) FinalWrapper) RLearner"
  sparseLinear :: bool

definition DMLCateEstimatorBase_init ::
  "('my \<Rightarrow> 'my) \<Rightarrow> ('mt \<Rightarrow> 'mt) \<Rightarrow> ('m \<Rightarrow> 'm) \<Rightarrow> ('z \<Rightarrow> 'z)
     \<Rightarrow> 'my \<Rightarrow> 'mt \<Rightarrow> 'm \<Rightarrow> 'z \<Rightarrow> bool \<Rightarrow> int \<Rightarrow> ('my, 'mt, 'm, 'z) DMLCateEstimatorBase" where
  "DMLCateEstimatorBase_init clone_y clone_t clone_m clone_z model_y model_t final z sparse splits =
     \<lparr>learner =
        RLearner_init (FirstStageWrapper_deepcopy clone_y) (FirstStageWrapper_deepcopy clone_t)
          (\<lambda>w. w)
          \<lparr>model = model_y, is_Y = True\<rparr> \<lparr>model = model_t, is_Y = False\<rparr>
          (FinalWrapper_new (clone_m final) (clone_z z)) splits,
      sparseLinear = sparse\<rparr>"

definition DMLCateEstimator_init ::
  "('my \<Rightarrow> 'my) \<Rightarrow> ('mt \<Rightarrow> 'mt) \<Rightarrow> ('m \<Rightarrow> 'm) \<Rightarrow> ('z \<Rightarrow> 'z)
     \<Rightarrow> 'my \<Rightarrow> 'mt \<Rightarrow> 'm \<Rightarrow> 'z \<Rightarrow> int \<Rightarrow> ('my, 'mt, 'm, 'z) DMLCateEstimatorBase" where
  "DMLCateEstimator_init clone_y clone_t clone_m clone_z model_y model_t final z splits =
     DMLCateEstimatorBase_init clone_y clone_t clone_m clone_z model_y model_t final z False splits"

definition SparseLinearDMLCateEstimator_init ::
  "('my \<Rightarrow> 'my) \<Rightarrow> ('mt \<Rightarrow> 'mt) \<Rightarrow> ('m \<Rightarrow> 'm) \<Rightarrow> ('z \<Rightarrow> 'z)
     \<Rightarrow> 'my \<Rightarrow> 'mt \<Rightarrow> 'm \<Rightarrow> 'z \<Rightarrow> int \<Rightarrow> ('my, 'mt, 'm, 'z) DMLCateEstimatorBase" where
  "SparseLinearDMLCateEstimator_init clone_y clone_t clone_m clone_z linear_model_y linear_model_t
     final z splits =
     DMLCateEstimatorBase_init clone_y clone_t clone_m clone_z linear_model_y linear_model_t
       final z True splits"

definition DMLCateEstimatorBase_coef ::
  "('m, 'a) model_ops \<Rightarrow> ('my, 'mt, 'm, 'z) DMLCateEstimatorBase \<Rightarrow> error + 'a ndarray" where
  "DMLCateEstimatorBase_coef ops self = FinalWrapper_coef ops (model_final (learner self))"

text \<open>
  One featurizer serves an estimator: \<^verbatim>\<open>__init__\<close> clones it once (line 139) and the
  methods of all the wrappers capture that clone. A call of a nuisance wrapper inside an
  estimator therefore finds the featurizer in the state that the last call of any
  wrapper left, the final wrapper's \<^verbatim>\<open>predict\<close> included, and leaves its own.
\<close>

definition shared_featurizer :: "('my, 'mt, 'm, 'z) DMLCateEstimatorBase \<Rightarrow> 'z" where
  "shared_featurizer self = featurizer (model_final (learner self))"

definition set_shared_featurizer ::
  "'z \<Rightarrow> ('my, 'mt, 'm, 'z) DMLCateEstimatorBase \<Rightarrow> ('my, 'mt, 'm, 'z) DMLCateEstimatorBase" where
  "set_shared_featurizer z self =
     self\<lparr>learner := (learner self)\<lparr>model_final := (model_final (learner self))\<lparr>featurizer := z\<rparr>\<rparr>\<rparr>"

text \<open>\<^verbatim>\<open>self._models_y[idx].fit(X, W, Target)\<close> and \<^verbatim>\<open>.predict(X, W)\<close>\<close>

definition models_y_fit ::
  "('z, 'a::{times,one}) fit_transform \<Rightarrow> ('my, 'a) model_ops
     \<Rightarrow> ('my, 'mt, 'm, 'z) DMLCateEstimatorBase \<Rightarrow> nat \<Rightarrow> 'a ndarray \<Rightarrow> 'a ndarray \<Rightarrow> 'a ndarray
     \<Rightarrow> error option \<times> ('my, 'mt, 'm, 'z) DMLCateEstimatorBase" where
  "models_y_fit fit_transform ops self idx X W Target =
     (if idx < length (models_y (learner self))
      then (case FirstStageWrapper_fit fit_transform (sparseLinear self) ops
                   (models_y (learner self) ! idx) (shared_featurizer self) X W Target of
              (r, w, z) \<Rightarrow>
                (r, set_shared_featurizer z
                      (self\<lparr>learner := (learner self)
                         \<lparr>models_y := (models_y (learner self))[idx := w]\<rparr>\<rparr>)))
      else (Some IndexError, self))"

definition models_y_predict ::
  "('z, 'a::{times,one}) fit_transform \<Rightarrow> ('my, 'a) model_ops
     \<Rightarrow> ('my, 'mt, 'm, 'z) DMLCateEstimatorBase \<Rightarrow> nat \<Rightarrow> 'a ndarray \<Rightarrow> 'a ndarray
     \<Rightarrow> (error + 'a ndarray) \<times> ('my, 'mt, 'm, 'z) DMLCateEstimatorBase" where
  "models_y_predict fit_transform ops self idx X W =
     (if idx < length (models_y (learner self))
      then (case FirstStageWrapper_predict fit_transform (sparseLinear self) ops
                   (models_y (learner self) ! idx) (shared_featurizer self) X W of
              (r, w, z) \<Rightarrow> (r, set_shared_featurizer z self))
      else (Inl IndexError, self))"

text \<open>\<^verbatim>\<open>self._models_t[idx].fit(X, W, Target)\<close> and \<^verbatim>\<open>.predict(X, W)\<close>\<close>

definition models_t_fit ::
  "('z, 'a::{times,one}) fit_transform \<Rightarrow> ('mt, 'a) model_ops
     \<Rightarrow> ('my, 'mt, 'm, 'z) DMLCateEstimatorBase \<Rightarrow> nat \<Rightarrow> 'a ndarray \<Rightarrow> 'a ndarray \<Rightarrow> 'a ndarray
     \<Rightarrow> error option \<times> ('my, 'mt, 'm, 'z) DMLCateEstimatorBase" where
  "models_t_fit fit_transform ops self idx X W Target =
     (if idx < length (models_t (learner self))
      then (case FirstStageWrapper_fit fit_transform (sparseLinear self) ops
                   (models_t (learner self) ! idx) (shared_featurizer self) X W Target of
              (r, w, z) \<Rightarrow>
                (r, set_shared_featurizer z
                      (self\<lparr>learner := (learner self)
                         \<lparr>models_t := (models_t (learner self))[idx := w]\<rparr>\<rparr>)))
      else (Some IndexError, self))"

definition models_t_predict ::
  "('z, 'a::{times,one}) fit_transform \<Rightarrow> ('mt, 'a) model_ops
     \<Rightarrow> ('my, 'mt, 'm, 'z) DMLCateEstimatorBase \<Rightarrow> nat \<Rightarrow> 'a ndarray \<Rightarrow> 'a ndarray
     \<Rightarrow> (error + 'a ndarray) \<times> ('my, 'mt, 'm, 'z) DMLCateEstimatorBase" where
  "models_t_predict fit_transform ops self idx X W =
     (if idx < length (models_t (learner self))
      then (case FirstStageWrapper_predict fit_transform (sparseLinear self) ops
                   (models_t (learner self) ! idx) (shared_featurizer self) X W of
              (r, w, z) \<Rightarrow> (r, set_shared_featurizer z self))
      else (Inl IndexError, self))"

text \<open>\<^verbatim>\<open>const_marginal_effect\<close> of an estimator of the family.\<close>

definition DML_const_marginal_effect ::
  "('z, 'a::{times,zero,one}) fit_transform \<Rightarrow> ('m, 'a) model_ops
     \<Rightarrow> ('my, 'mt, 'm, 'z) DMLCateEstimatorBase \<Rightarrow> 'a ndarray option
     \<Rightarrow> (error + 'a ndarray) \<times> ('my, 'mt, 'm, 'z) DMLCateEstimatorBase" where
  "DML_const_marginal_effect fit_transform ops self X_opt =
     (case RLearner_const_marginal_effect (FinalWrapper_ops fit_transform ops) (learner self) X_opt of
        (r, l) \<Rightarrow> (r, self\<lparr>learner := l\<rparr>))"

subsection \<open>The kernel configuration\<close>

text \<open>
  The names that the module binds: its imports (lines 12-20) and its classes. The name
  \<^verbatim>\<open>defaultdict\<close> is not one of them, and it is not a builtin either, so evaluating it
  raises \<^verbatim>\<open>NameError\<close>.
\<close>

definition module_names :: "string list" where
  "module_names =
     [''np'', ''copy'', ''shape'', ''reshape'', ''ndim'', ''hstack'', ''cross_product'',
      ''transpose'', ''KFold'', ''LinearRegression'', ''LassoCV'', ''PolynomialFeatures'',
      ''FunctionTransformer'', ''clone'', ''Pipeline'', ''LinearCateEstimator'',
      ''_RLearner'', ''_DMLCateEstimatorBase'', ''DMLCateEstimator'',
      ''SparseLinearDMLCateEstimator'', ''KernelDMLCateEstimator'']"

definition global_name :: "string \<Rightarrow> error + unit" where
  "global_name x = (if x \<in> set module_names then Inr () else Inl (NameError x))"

text \<open>
  A \<^verbatim>\<open>defaultdict\<close> calls its default factory without arguments when a key is missing.
  The factories of \<^verbatim>\<open>RandomFeatures\<close> are written \<^verbatim>\<open>lambda d_x: ...\<close>, functions of
  one argument; calling one without arguments raises \<^verbatim>\<open>TypeError\<close>. A factory draws
  from the random generator, whose state is \<open>'r\<close>.
\<close>

datatype ('r, 'v) factory =
    Lambda0 "'r \<Rightarrow> 'v \<times> 'r"
  | Lambda1 "nat \<Rightarrow> 'r \<Rightarrow> 'v \<times> 'r"

record ('r, 'v) defaultdict =
  default_factory :: "('r, 'v) factory"
  items :: "nat \<rightharpoonup> 'v"

definition defaultdict_getitem ::
  "('r, 'v) defaultdict \<Rightarrow> nat \<Rightarrow> 'r \<Rightarrow> (error + 'v) \<times> ('r, 'v) defaultdict \<times> 'r" where
  "defaultdict_getitem d key rng =
     (case items d key of
        Some v \<Rightarrow> (Inr v, d, rng)
      | None \<Rightarrow>
          (case default_factory d of
             Lambda0 f \<Rightarrow> (case f rng of (v, rng') \<Rightarrow> (Inr v, d\<lparr>items := (items d)(key \<mapsto> v)\<rparr>, rng'))
           | Lambda1 f \<Rightarrow> (Inl TypeError, d, rng)))"

record ('r, 'v) RandomFeatures =
  omegas :: "('r, 'v) defaultdict"
  biases :: "('r, 'v) defaultdict"

text \<open>
  \<^verbatim>\<open>RandomFeatures.__init__\<close>; \<open>normal\<close> and \<open>uniform\<close> stand for the two draws
  \<^verbatim>\<open>np.random.normal(0, 1 / bw, size=(d_x, dim))\<close> and
  \<^verbatim>\<open>np.random.uniform(0, 2 * np.pi, size=(1, dim))\<close>.
\<close>

definition RandomFeatures_init ::
  "(nat \<Rightarrow> 'r \<Rightarrow> 'v \<times> 'r) \<Rightarrow> (nat \<Rightarrow> 'r \<Rightarrow> 'v \<times> 'r) \<Rightarrow> error + ('r, 'v) RandomFeatures" where
  "RandomFeatures_init normal uniform =
     and_then (global_name ''defaultdict'') (\<lambda>_.
     and_then (global_name ''defaultdict'') (\<lambda>_.
     Inr \<lparr>omegas = \<lparr>default_factory = Lambda1 normal, items = Map.empty\<rparr>,
          biases = \<lparr>default_factory = Lambda1 uniform, items = Map.empty\<rparr>\<rparr>))"

text \<open>
  \<^verbatim>\<open>RandomFeatures.fit_transform\<close>; \<open>project X omegas biases\<close> stands for
  \<^verbatim>\<open>np.sqrt(2 / dim) * np.cos(np.matmul(X, omegas) + biases)\<close>.
\<close>

definition RandomFeatures_fit_transform ::
  "('a ndarray \<Rightarrow> 'v \<Rightarrow> 'v \<Rightarrow> 'a ndarray) \<Rightarrow> ('r, 'v) RandomFeatures \<times> 'r \<Rightarrow> 'a ndarray
     \<Rightarrow> (error + 'a ndarray) \<times> ('r, 'v) RandomFeatures \<times> 'r" where
  "RandomFeatures_fit_transform project st X =
     (case st of (self, rng) \<Rightarrow>
        (case shape X of
           n # d_x # trailing \<Rightarrow>
             (case defaultdict_getitem (omegas self) d_x rng of
                (Inl e, om, rng1) \<Rightarrow> (Inl e, self\<lparr>omegas := om\<rparr>, rng1)
              | (Inr omegas_x, om, rng1) \<Rightarrow>
                  (case defaultdict_getitem (biases self) d_x rng1 of
                     (Inl e, bi, rng2) \<Rightarrow> (Inl e, self\<lparr>omegas := om, biases := bi\<rparr>, rng2)
                   | (Inr biases_x, bi, rng2) \<Rightarrow>
                       (Inr (project X omegas_x biases_x),
                        self\<lparr>omegas := om, biases := bi\<rparr>, rng2)))
         | _ \<Rightarrow> (Inl IndexError, self, rng)))"

text \<open>
  \<^verbatim>\<open>KernelDMLCateEstimator.__init__\<close>: the featurizer is built while the arguments of
  the call to the parent's constructor are evaluated.
\<close>

definition KernelDMLCateEstimator_init ::
  "('my \<Rightarrow> 'my) \<Rightarrow> ('mt \<Rightarrow> 'mt) \<Rightarrow> ('m \<Rightarrow> 'm)
     \<Rightarrow> (('r, 'v) RandomFeatures \<Rightarrow> ('r, 'v) RandomFeatures)
     \<Rightarrow> (nat \<Rightarrow> 'r \<Rightarrow> 'v \<times> 'r) \<Rightarrow> (nat \<Rightarrow> 'r \<Rightarrow> 'v \<times> 'r)
     \<Rightarrow> 'my \<Rightarrow> 'mt \<Rightarrow> 'm \<Rightarrow> int
     \<Rightarrow> error + ('my, 'mt, 'm, ('r, 'v) RandomFeatures) DMLCateEstimatorBase" where
  "KernelDMLCateEstimator_init clone_y clone_t clone_m clone_z normal uniform
     model_y model_t final splits =
     and_then (RandomFeatures_init normal uniform) (\<lambda>random_features.
     Inr (DMLCateEstimator_init clone_y clone_t clone_m clone_z model_y model_t final
            random_features splits))"

text \<open>
  The two combination policies in the words of the spec: the dense design is
  featurize(X) concatenated with W; the sparse design is the cross-product of [X, W]
  with [1, featurize(X), W]. \<open>F\<close> stands for featurize(X).
\<close>

definition dense_design :: "'a ndarray \<Rightarrow> 'a ndarray \<Rightarrow> error + 'a ndarray" where
  "dense_design F W = hstack [F, W]"

definition sparse_design ::
  "'a::{times,one} ndarray \<Rightarrow> 'a ndarray \<Rightarrow> 'a ndarray \<Rightarrow> error + 'a ndarray" where
  "sparse_design X W F =
     and_then (hstack [X, W]) (\<lambda>XW.
     and_then (hstack [ones [hd (shape XW), 1], F, W]) (\<lambda>B. cross_product XW B))"





subsection \<open>Simple collaborators\<close>

text \<open>
  The smallest models that keep the contracts, for running the estimator on concrete
  data: a nuisance model that remembers the first target row it was fit on and predicts
  it for every row, a final model that remembers the trailing shape of its target and
  predicts zeros of that shape, and a featurizer that returns its input and remembers
  its width.
\<close>

definition first_row_model :: "(nat list \<times> 'a list, 'a) nuisance_ops" where
  "first_row_model =
     \<lparr>nfit = (\<lambda>m X W Target. (None, (tl (shape Target), row Target 0))),
      npredict = (\<lambda>m X W. (Inr (NDArray (hd (shape X) # fst m)
                                  (concat (replicate (hd (shape X)) (snd m)))), m))\<rparr>"

definition zero_model :: "(nat list, 'a::zero) model_ops" where
  "zero_model =
     \<lparr>mfit = (\<lambda>m design Target. (None, tl (shape Target))),
      mpredict = (\<lambda>m design. Inr (zeros (hd (shape design) # m))),
      mcoef = (\<lambda>m. None)\<rparr>"

definition passthrough :: "(nat, 'a) fit_transform" where
  "passthrough z X = (Inr X, columns X)"

text \<open>
  A linear model with coefficients that \<^verbatim>\<open>fit\<close> leaves alone: the coefficient array
  has the width of the design as its last axis, and the prediction for a design row is
  its inner product with each coefficient row.
\<close>

definition linear_predict :: "'a::comm_ring_1 ndarray \<Rightarrow> 'a ndarray \<Rightarrow> 'a ndarray" where
  "linear_predict c D =
     NDArray (hd (shape D) # butlast (shape c))
       (concat (map (\<lambda>r. map (\<lambda>y. sum_list (map2 (*) (row D r)
                                       (take (last (shape c)) (drop (y * last (shape c)) (data c)))))
                            [0..<prod_list (butlast (shape c))])
                  [0..<hd (shape D)]))"

definition fixed_linear_model :: "('a::comm_ring_1 ndarray, 'a) model_ops" where
  "fixed_linear_model =
     \<lparr>mfit = (\<lambda>m design Target. (None, m)),
      mpredict = (\<lambda>m design. Inr (linear_predict m design)),
      mcoef = (\<lambda>m. Some m)\<rparr>"

text \<open>
  The same linear model, validating its input as the scikit-learn models do: a design
  that is not a matrix of the coefficients' width is refused with \<^verbatim>\<open>ValueError\<close>.
\<close>

definition checked_linear_model :: "('a::comm_ring_1 ndarray, 'a) model_ops" where
  "checked_linear_model =
     \<lparr>mfit = (\<lambda>m design Target. (None, m)),
      mpredict = (\<lambda>m design.
         if ndim design = 2 \<and> shape design ! 1 = last (shape m)
         then Inr (linear_predict m design) else Inl ValueError),
      mcoef = (\<lambda>m. Some m)\<rparr>"


section \<open>Properties\<close>

subsection \<open>The folds of the splitter\<close>

lemma sum_list_fold_sizes: "0 < k \<Longrightarrow> sum_list (fold_sizes k n) = n"
proof -
  assume k: "0 < k"
  have "sum_list (fold_sizes k n) = (\<Sum>j<k. n div k + (if j < n mod k then 1 else 0))"
    by (simp add: fold_sizes_def sum_list_sum_nth atLeast0LessThan)
  also have "\<dots> = k * (n div k) + (\<Sum>j<k. if j < n mod k then 1 else 0)"
    by (simp add: sum.distrib)
  also have "(\<Sum>j<k. if j < n mod k then 1 else (0::nat)) = card {j. j < k \<and> j < n mod k}"
    by (simp add: sum.If_cases Int_def)
  also have "{j. j < k \<and> j < n mod k} = {..<n mod k}"
    using k by (auto intro: less_trans mod_less_divisor)
  finally show ?thesis by simp
qed

lemma fold_sizes_pos: "0 < k \<Longrightarrow> k \<le> n \<Longrightarrow> s \<in> set (fold_sizes k n) \<Longrightarrow> 0 < s"
  by (auto simp: fold_sizes_def div_greater_zero_iff)

lemma length_iter_test_indices: "length (iter_test_indices c sizes) = length sizes"
  by (induction sizes arbitrary: c) auto

lemma concat_iter_test_indices: "concat (iter_test_indices c sizes) = [c..<c + sum_list sizes]"
proof (induction sizes arbitrary: c)
  case Nil then show ?case by simp
next
  case (Cons s sizes)
  have "[c..<c + s] @ [c + s..<c + s + sum_list sizes] = [c..<c + s + sum_list sizes]"
    by (metis le_add1 upt_add_eq_append)
  with Cons show ?case by (simp add: add.assoc)
qed

lemma iter_test_indices_nth:
  "f < length sizes \<Longrightarrow> iter_test_indices c sizes ! f =
     [c + sum_list (take f sizes)..<c + sum_list (take (Suc f) sizes)]"
proof (induction sizes arbitrary: c f)
  case Nil then show ?case by simp
next
  case (Cons s sizes)
  then show ?case by (cases f) (auto simp: add.assoc)
qed

lemma sum_list_take_mono: "f \<le> g \<Longrightarrow> sum_list (take f (sizes::nat list)) \<le> sum_list (take g sizes)"
proof -
  assume "f \<le> g"
  then have "take g sizes = take f sizes @ take (g - f) (drop f sizes)"
    by (metis le_add_diff_inverse take_add)
  then show ?thesis by simp
qed

lemma sum_list_take_Suc: "f < length sizes \<Longrightarrow> sum_list (take (Suc f) sizes) = sum_list (take f sizes) + (sizes ! f :: nat)"
  by (simp add: take_Suc_conv_app_nth)

lemma iter_test_indices_disjoint:
  assumes "f < g" "g < length sizes"
  shows "set (iter_test_indices c sizes ! f) \<inter> set (iter_test_indices c sizes ! g) = {}"
proof -
  have "sum_list (take (Suc f) sizes) \<le> sum_list (take g sizes)"
    using assms by (intro sum_list_take_mono) simp
  then show ?thesis using assms by (auto simp: iter_test_indices_nth)
qed

lemma set_concat_nth: "set (concat xs) = (\<Union>f<length xs. set (xs ! f))"
proof -
  have "set xs = (!) xs ` {..<length xs}"
    by (auto simp: set_conv_nth)
  then show ?thesis by (simp only: set_concat image_image UN_simps)
qed

lemma iter_test_indices_union:
  "(\<Union>f<length sizes. set (iter_test_indices c sizes ! f)) = {c..<c + sum_list sizes}"
proof -
  have "(\<Union>f<length sizes. set (iter_test_indices c sizes ! f)) = set (concat (iter_test_indices c sizes))"
    by (simp only: set_concat_nth length_iter_test_indices)
  then show ?thesis by (simp add: concat_iter_test_indices)
qed

text \<open>
  C5 (amended). For all \<open>n\<close> and \<open>k\<close> with \<open>2 \<le> k \<le> n\<close>, the splitter used in
  \<^verbatim>\<open>fit\<close> produces \<open>k\<close> test-index sets that partition the row indices
  \<open>{0..<n}\<close>: each is non-empty, they are pairwise disjoint, their union is the whole
  index set, and so every sample belongs to exactly one test fold.
\<close>

theorem KFold_split_partition:
  assumes "2 \<le> k" and "k \<le> int n"
  shows "\<exists>folds. KFold_split k n = Inr folds \<and> length folds = nat k
           \<and> (\<forall>f<length folds. snd (folds ! f) \<noteq> [])
           \<and> (\<forall>f<length folds. \<forall>g<length folds. f \<noteq> g \<longrightarrow>
                  set (snd (folds ! f)) \<inter> set (snd (folds ! g)) = {})
           \<and> (\<Union>f<length folds. set (snd (folds ! f))) = {0..<n}
           \<and> (\<forall>i<n. \<exists>!f. f < length folds \<and> i \<in> set (snd (folds ! f)))"
proof -
  define sizes where "sizes = fold_sizes (nat k) n"
  define tests where "tests = iter_test_indices 0 sizes"
  define folds where "folds = map (\<lambda>test. (train_of n test, test)) tests"
  have kpos: "0 < nat k" and kn: "nat k \<le> n" using assms by auto
  have len_sizes: "length sizes = nat k" by (simp add: sizes_def fold_sizes_def)
  have len: "length folds = nat k"
    by (simp add: folds_def tests_def length_iter_test_indices len_sizes)
  have snd_nth: "snd (folds ! f) = tests ! f" if "f < nat k" for f
    using that len by (simp add: folds_def)
  have split: "KFold_split k n = Inr folds"
    using assms by (simp add: KFold_split_def folds_def tests_def sizes_def)
  have sum: "sum_list sizes = n"
    using kpos by (simp add: sizes_def sum_list_fold_sizes)
  have nonempty: "tests ! f \<noteq> []" if "f < nat k" for f
  proof -
    have "0 < sizes ! f"
      using that kpos kn len_sizes fold_sizes_pos [of "nat k" n "sizes ! f"]
      by (simp add: sizes_def)
    then show ?thesis
      using that len_sizes by (simp add: tests_def iter_test_indices_nth sum_list_take_Suc)
  qed
  have disj: "set (tests ! f) \<inter> set (tests ! g) = {}" if "f < nat k" "g < nat k" "f \<noteq> g" for f g
  proof (cases "f < g")
    case True
    then show ?thesis using that len_sizes by (simp add: tests_def iter_test_indices_disjoint)
  next
    case False
    then have "g < f" using that by simp
    then have "set (tests ! g) \<inter> set (tests ! f) = {}"
      using that len_sizes by (simp add: tests_def iter_test_indices_disjoint)
    then show ?thesis by blast
  qed
  have un: "(\<Union>f<nat k. set (tests ! f)) = {0..<n}"
    using iter_test_indices_union [where c = 0 and sizes = sizes] by (simp add: tests_def len_sizes sum)
  have one: "\<exists>!f. f < nat k \<and> i \<in> set (tests ! f)" if "i < n" for i
  proof -
    from that have "i \<in> {0..<n}" by simp
    then have "i \<in> (\<Union>f<nat k. set (tests ! f))" by (simp only: un)
    then obtain f where f: "f < nat k" "i \<in> set (tests ! f)" by blast
    show ?thesis
    proof (rule ex1I [of _ f])
      show "f < nat k \<and> i \<in> set (tests ! f)" using f by simp
    next
      fix g assume g: "g < nat k \<and> i \<in> set (tests ! g)"
      show "g = f"
      proof (rule ccontr)
        assume "g \<noteq> f"
        with disj [of g f] g f show False by blast
      qed
    qed
  qed
  have c1: "\<forall>f<length folds. snd (folds ! f) \<noteq> []"
    using nonempty by (simp add: len snd_nth)
  have c2: "\<forall>f<length folds. \<forall>g<length folds. f \<noteq> g \<longrightarrow>
                  set (snd (folds ! f)) \<inter> set (snd (folds ! g)) = {}"
    using disj by (simp add: len snd_nth)
  have c3: "(\<Union>f<length folds. set (snd (folds ! f))) = {0..<n}"
    using un by (simp add: len snd_nth)
  have c4: "\<forall>i<n. \<exists>!f. f < length folds \<and> i \<in> set (snd (folds ! f))"
  proof (intro allI impI)
    fix i assume "i < n"
    from one [OF this] obtain f where f: "f < nat k" "i \<in> set (tests ! f)"
      and u: "\<And>g. g < nat k \<and> i \<in> set (tests ! g) \<Longrightarrow> g = f" by blast
    show "\<exists>!f. f < length folds \<and> i \<in> set (snd (folds ! f))"
    proof (rule ex1I [of _ f])
      show "f < length folds \<and> i \<in> set (snd (folds ! f))" using f by (simp add: len snd_nth)
    next
      fix g assume "g < length folds \<and> i \<in> set (snd (folds ! g))"
      then have "g < nat k \<and> i \<in> set (tests ! g)" by (auto simp: len snd_nth)
      then show "g = f" by (rule u)
    qed
  qed
  from split len c1 c2 c3 c4 show ?thesis by blast
qed

theorem KFold_split_partition_witness:
  "(2::int) \<le> 2 \<and> (2::int) \<le> int 3 \<and>
   (\<exists>folds. KFold_split 2 3 = Inr folds \<and> length folds = nat 2
      \<and> (\<forall>f<length folds. snd (folds ! f) \<noteq> [])
      \<and> (\<forall>f<length folds. \<forall>g<length folds. f \<noteq> g \<longrightarrow>
             set (snd (folds ! f)) \<inter> set (snd (folds ! g)) = {})
      \<and> (\<Union>f<length folds. set (snd (folds ! f))) = {0..<3}
      \<and> (\<forall>i<3. \<exists>!f. f < length folds \<and> i \<in> set (snd (folds ! f))))"
  using KFold_split_partition [of 2 3] by simp

text \<open>
  With a single split the splitter produces no folds at all: the constructor of
  \<^verbatim>\<open>KFold\<close> refuses \<^verbatim>\<open>n_splits = 1\<close>, although \<open>1 \<le> 3\<close>.
\<close>

theorem KFold_split_single_counterexample: "KFold_split 1 3 = Inl ValueError"
  by (simp add: KFold_split_def)

subsection \<open>Calls of \<^verbatim>\<open>fit\<close> that fail before the loop\<close>

lemma unfitted_predict:
  "d_t w = None \<Longrightarrow> FinalWrapper_predict ft mops w X = (Inl (AttributeError ''_d_t''), w)"
  by (simp add: FinalWrapper_predict_def)

lemma unfitted_const_marginal_effect:
  assumes "d_t (model_final self) = None"
  shows "RLearner_const_marginal_effect (FinalWrapper_ops ft mops) self X_opt
           = (Inl (AttributeError ''_d_t''), self)"
  using assms
  by (simp add: RLearner_const_marginal_effect_def FinalWrapper_ops_def unfitted_predict Let_def)

lemma fit_inputs_mismatch:
  assumes "dim0 Y = Inr n_y" and "dim0 T = Inr n_t"
    and "(case X_opt of None \<Rightarrow> Inr n_y | Some X \<Rightarrow> dim0 X) = Inr n_x"
    and "(case W_opt of None \<Rightarrow> Inr n_y | Some W \<Rightarrow> dim0 W) = Inr n_w"
    and "\<not> (n_y = n_t \<and> n_t = n_x \<and> n_x = n_w)"
  shows "fit_inputs k Y T X_opt W_opt = Inl AssertionError"
  using assms
  by (cases X_opt; cases W_opt)
     (auto simp: fit_inputs_def and_then_def dim0_def ones_def split: list.splits)

lemma fit_inputs_too_few:
  assumes "dim0 Y = Inr n" and "dim0 T = Inr n"
    and "(case X_opt of None \<Rightarrow> Inr n | Some X \<Rightarrow> dim0 X) = Inr n"
    and "(case W_opt of None \<Rightarrow> Inr n | Some W \<Rightarrow> dim0 W) = Inr n"
    and "int n < k"
  shows "fit_inputs k Y T X_opt W_opt = Inl ValueError"
  using assms
  by (cases X_opt; cases W_opt)
     (auto simp: fit_inputs_def and_then_def dim0_def ones_def KFold_split_def split: list.splits)

text \<open>
  C4. When the row counts of \<open>Y\<close>, \<open>T\<close>, \<open>X\<close>, \<open>W\<close> (an omitted \<open>X\<close> or \<open>W\<close> has the
  rows of \<open>Y\<close>) are not all equal, \<^verbatim>\<open>fit\<close> fails with the assertion on the shapes and
  leaves the estimator as it was, whatever the nuisance and final models are: none of
  them has been fit. On an estimator that was not fit before, a later
  \<^verbatim>\<open>const_marginal_effect\<close> still fails for want of the fitted attributes.
\<close>

theorem fit_row_mismatch:
  assumes "dim0 Y = Inr n_y" and "dim0 T = Inr n_t"
    and "(case X_opt of None \<Rightarrow> Inr n_y | Some X \<Rightarrow> dim0 X) = Inr n_x"
    and "(case W_opt of None \<Rightarrow> Inr n_y | Some W \<Rightarrow> dim0 W) = Inr n_w"
    and "\<not> (n_y = n_t \<and> n_t = n_x \<and> n_x = n_w)"
    and "d_t (model_final self) = None"
  shows "RLearner_fit ops_y ops_t ops_f self Y T X_opt W_opt = (Some AssertionError, self)
       \<and> RLearner_const_marginal_effect (FinalWrapper_ops ft mops)
           (snd (RLearner_fit ops_y ops_t ops_f self Y T X_opt W_opt)) X_query
           = (Inl (AttributeError ''_d_t''), self)"
proof -
  have "fit_inputs (n_splits self) Y T X_opt W_opt = Inl AssertionError"
    using assms(1-5) by (rule fit_inputs_mismatch)
  then have "RLearner_fit ops_y ops_t ops_f self Y T X_opt W_opt = (Some AssertionError, self)"
    by (simp add: RLearner_fit_def)
  then show ?thesis
    using assms(6) by (simp add: unfitted_const_marginal_effect)
qed

theorem fit_row_mismatch_witness:
  "RLearner_fit first_row_model first_row_model (FinalWrapper_ops passthrough zero_model)
     (RLearner_init id id id ([], []) ([], []) (FinalWrapper_new [] 0) 2)
     (NDArray [3] [1, 2, 3 :: int]) (NDArray [2] [1, 2]) None None
   = (Some AssertionError,
      RLearner_init id id id ([], []) ([], []) (FinalWrapper_new [] 0) 2)
   \<and> RLearner_const_marginal_effect (FinalWrapper_ops passthrough zero_model)
       (snd (RLearner_fit first_row_model first_row_model
               (FinalWrapper_ops passthrough zero_model)
               (RLearner_init id id id ([], []) ([], []) (FinalWrapper_new [] 0) 2)
               (NDArray [3] [1, 2, 3 :: int]) (NDArray [2] [1, 2]) None None)) None
     = (Inl (AttributeError ''_d_t''),
        RLearner_init id id id ([], []) ([], []) (FinalWrapper_new [] 0) 2)"
  by (rule fit_row_mismatch [where n_y = 3 and n_t = 2 and n_x = 3 and n_w = 3])
     (simp_all add: dim0_def RLearner_init_def FinalWrapper_new_def)

text \<open>
  C10. When the common row count is smaller than the configured number of splits,
  \<^verbatim>\<open>fit\<close> fails as the splitter is started, before the loop body runs: the estimator
  is left as it was, whatever the models are, so no model has been fit, and on an
  estimator that was not fit before a later prediction still fails as unfitted.
\<close>

theorem fit_fewer_rows_than_splits:
  assumes "dim0 Y = Inr n" and "dim0 T = Inr n"
    and "(case X_opt of None \<Rightarrow> Inr n | Some X \<Rightarrow> dim0 X) = Inr n"
    and "(case W_opt of None \<Rightarrow> Inr n | Some W \<Rightarrow> dim0 W) = Inr n"
    and "int n < n_splits self"
    and "d_t (model_final self) = None"
  shows "RLearner_fit ops_y ops_t ops_f self Y T X_opt W_opt = (Some ValueError, self)
       \<and> RLearner_const_marginal_effect (FinalWrapper_ops ft mops)
           (snd (RLearner_fit ops_y ops_t ops_f self Y T X_opt W_opt)) X_query
           = (Inl (AttributeError ''_d_t''), self)"
proof -
  have "fit_inputs (n_splits self) Y T X_opt W_opt = Inl ValueError"
    using assms(1-5) by (rule fit_inputs_too_few)
  then have "RLearner_fit ops_y ops_t ops_f self Y T X_opt W_opt = (Some ValueError, self)"
    by (simp add: RLearner_fit_def)
  then show ?thesis
    using assms(6) by (simp add: unfitted_const_marginal_effect)
qed

theorem fit_fewer_rows_than_splits_witness:
  "RLearner_fit first_row_model first_row_model (FinalWrapper_ops passthrough zero_model)
     (RLearner_init id id id ([], []) ([], []) (FinalWrapper_new [] 0) 3)
     (NDArray [2] [1, 2 :: int]) (NDArray [2] [5, 7]) None None
   = (Some ValueError,
      RLearner_init id id id ([], []) ([], []) (FinalWrapper_new [] 0) 3)
   \<and> RLearner_const_marginal_effect (FinalWrapper_ops passthrough zero_model)
       (snd (RLearner_fit first_row_model first_row_model
               (FinalWrapper_ops passthrough zero_model)
               (RLearner_init id id id ([], []) ([], []) (FinalWrapper_new [] 0) 3)
               (NDArray [2] [1, 2 :: int]) (NDArray [2] [5, 7]) None None)) None
     = (Inl (AttributeError ''_d_t''),
        RLearner_init id id id ([], []) ([], []) (FinalWrapper_new [] 0) 3)"
  by (rule fit_fewer_rows_than_splits [where n = 2])
     (simp_all add: dim0_def RLearner_init_def FinalWrapper_new_def)

subsection \<open>The combination policies of the nuisance wrappers\<close>

lemma hstack_shape_nonempty: "hstack XS = Inr A \<Longrightarrow> shape A \<noteq> []"
  by (auto simp: hstack_def Let_def split: list.splits if_splits)

lemma combine_sparse:
  assumes "ft z X = (Inr F, z')" and "is_Y w" and "sparse"
  shows "fst (combine ft sparse w z X W) = sparse_design X W F"
proof (cases "hstack [X, W]")
  case (Inl e)
  then show ?thesis using assms by (simp add: combine_def sparse_design_def and_then_def)
next
  case (Inr XW)
  then have "shape XW \<noteq> []" by (rule hstack_shape_nonempty)
  then obtain n tr where "shape XW = n # tr" by (cases "shape XW") auto
  then show ?thesis
    using assms Inr by (simp add: combine_def sparse_design_def and_then_def dim0_def)
qed

lemma combine_dense:
  assumes "ft z X = (Inr F, z')" and "\<not> (is_Y w \<and> sparse)"
  shows "fst (combine ft sparse w z X W) = dense_design F W"
  using assms by (auto simp: combine_def dense_design_def)

lemma init_models_y:
  "w \<in> set (models_y (learner (DMLCateEstimatorBase_init cy ct cm cz my mt mf z sp k))) \<Longrightarrow> is_Y w"
  by (auto simp: DMLCateEstimatorBase_init_def RLearner_init_def FirstStageWrapper_deepcopy_def)

lemma init_models_t:
  "w \<in> set (models_t (learner (DMLCateEstimatorBase_init cy ct cm cz my mt mf z sp k))) \<Longrightarrow> \<not> is_Y w"
  by (auto simp: DMLCateEstimatorBase_init_def RLearner_init_def FirstStageWrapper_deepcopy_def)

lemma init_sparse:
  "sparseLinear (DMLCateEstimatorBase_init cy ct cm cz my mt mf z sp k) = sp"
  by (simp add: DMLCateEstimatorBase_init_def)

lemma init_lengths:
  "length (models_y (learner (DMLCateEstimatorBase_init cy ct cm cz my mt mf z sp k))) = nat k
   \<and> length (models_t (learner (DMLCateEstimatorBase_init cy ct cm cz my mt mf z sp k))) = nat k"
  by (simp add: DMLCateEstimatorBase_init_def RLearner_init_def)

text \<open>
  C6. Both configurations build as many outcome wrappers and as many treatment wrappers
  as there are splits. In the sparse-linear configuration every outcome nuisance wrapper
  combines \<open>X\<close> and \<open>W\<close> into the cross-product of [X, W] with [1, featurize(X), W],
  while every treatment nuisance wrapper uses the dense design, featurize(X) concatenated
  with W; in the dense configuration both kinds of wrapper use the dense design.
\<close>

theorem combine_policy:
  assumes "ft z X = (Inr F, z')"
  shows "length (models_y (learner (SparseLinearDMLCateEstimator_init cy ct cm cz my mt mf z0 k))) = nat k
       \<and> length (models_t (learner (SparseLinearDMLCateEstimator_init cy ct cm cz my mt mf z0 k))) = nat k
       \<and> length (models_y (learner (DMLCateEstimator_init cy ct cm cz my mt mf z0 k))) = nat k
       \<and> length (models_t (learner (DMLCateEstimator_init cy ct cm cz my mt mf z0 k))) = nat k
       \<and> (\<forall>w\<in>set (models_y (learner (SparseLinearDMLCateEstimator_init cy ct cm cz my mt mf z0 k))).
            fst (combine ft (sparseLinear (SparseLinearDMLCateEstimator_init cy ct cm cz my mt mf z0 k)) w z X W)
              = sparse_design X W F)
       \<and> (\<forall>w\<in>set (models_t (learner (SparseLinearDMLCateEstimator_init cy ct cm cz my mt mf z0 k))).
            fst (combine ft (sparseLinear (SparseLinearDMLCateEstimator_init cy ct cm cz my mt mf z0 k)) w z X W)
              = dense_design F W)
       \<and> (\<forall>w\<in>set (models_y (learner (DMLCateEstimator_init cy ct cm cz my mt mf z0 k))).
            fst (combine ft (sparseLinear (DMLCateEstimator_init cy ct cm cz my mt mf z0 k)) w z X W)
              = dense_design F W)
       \<and> (\<forall>w\<in>set (models_t (learner (DMLCateEstimator_init cy ct cm cz my mt mf z0 k))).
            fst (combine ft (sparseLinear (DMLCateEstimator_init cy ct cm cz my mt mf z0 k)) w z X W)
              = dense_design F W)"
  unfolding SparseLinearDMLCateEstimator_init_def DMLCateEstimator_init_def init_sparse
  using assms
  by (auto simp: init_lengths intro!: combine_sparse combine_dense dest: init_models_y init_models_t)

theorem combine_policy_witness:
  "passthrough 0 (NDArray [2, 1] [1, 2 :: int]) = (Inr (NDArray [2, 1] [1, 2]), 1)
   \<and> length (models_y (learner
        (SparseLinearDMLCateEstimator_init id id id id () () () (0::nat) 2))) = 2
   \<and> length (models_t (learner
        (SparseLinearDMLCateEstimator_init id id id id () () () (0::nat) 2))) = 2
   \<and> length (models_y (learner (DMLCateEstimator_init id id id id () () () (0::nat) 2))) = 2
   \<and> length (models_t (learner (DMLCateEstimator_init id id id id () () () (0::nat) 2))) = 2
   \<and> fst (combine passthrough
            (sparseLinear (SparseLinearDMLCateEstimator_init id id id id () () () (0::nat) 2))
            (hd (models_y (learner
                   (SparseLinearDMLCateEstimator_init id id id id () () () (0::nat) 2))))
            0 (NDArray [2, 1] [1, 2 :: int]) (NDArray [2, 1] [3, 4]))
       = Inr (NDArray [2, 6] [1, 3, 1, 3, 3, 9, 2, 4, 4, 8, 8, 16])
   \<and> fst (combine passthrough
            (sparseLinear (SparseLinearDMLCateEstimator_init id id id id () () () (0::nat) 2))
            (hd (models_t (learner
                   (SparseLinearDMLCateEstimator_init id id id id () () () (0::nat) 2))))
            0 (NDArray [2, 1] [1, 2 :: int]) (NDArray [2, 1] [3, 4]))
       = Inr (NDArray [2, 2] [1, 3, 2, 4])
   \<and> fst (combine passthrough
            (sparseLinear (DMLCateEstimator_init id id id id () () () (0::nat) 2))
            (hd (models_y (learner (DMLCateEstimator_init id id id id () () () (0::nat) 2))))
            0 (NDArray [2, 1] [1, 2 :: int]) (NDArray [2, 1] [3, 4]))
       = Inr (NDArray [2, 2] [1, 3, 2, 4])
   \<and> fst (combine passthrough
            (sparseLinear (DMLCateEstimator_init id id id id () () () (0::nat) 2))
            (hd (models_t (learner (DMLCateEstimator_init id id id id () () () (0::nat) 2))))
            0 (NDArray [2, 1] [1, 2 :: int]) (NDArray [2, 1] [3, 4]))
       = Inr (NDArray [2, 2] [1, 3, 2, 4])"
proof -
  let ?S = "SparseLinearDMLCateEstimator_init id id id id () () () (0::nat) 2"
  let ?D = "DMLCateEstimator_init id id id id () () () (0::nat) 2"
  let ?X = "NDArray [2, 1] [1, 2 :: int]"
  let ?W = "NDArray [2, 1] [3, 4 :: int]"
  have p: "passthrough 0 ?X = (Inr ?X, 1)"
    by (simp add: passthrough_def columns_def ndim_def)
  have s: "sparse_design ?X ?W ?X = Inr (NDArray [2, 6] [1, 3, 1, 3, 3, 9, 2, 4, 4, 8, 8, 16])"
    by code_simp
  have d: "dense_design ?X ?W = Inr (NDArray [2, 2] [1, 3, 2, 4])"
    by code_simp
  note t = combine_policy [where ft = passthrough and z = 0 and X = ?X and F = ?X and z' = 1
      and W = ?W and cy = id and ct = id and cm = id and cz = id and my = "()" and mt = "()"
      and mf = "()" and ?z0.0 = "0::nat" and k = 2, OF p]
  have ne: "length xs = nat 2 \<Longrightarrow> hd xs \<in> set xs" for xs :: "'b list"
    by (cases xs) simp_all
  from t have ly: "length (models_y (learner ?S)) = nat 2"
    and lt: "length (models_t (learner ?S)) = nat 2"
    and my: "length (models_y (learner ?D)) = nat 2"
    and mt: "length (models_t (learner ?D)) = nat 2"
    by blast+
  from t ne [OF ly] have a: "fst (combine passthrough (sparseLinear ?S) (hd (models_y (learner ?S)))
            0 ?X ?W) = sparse_design ?X ?W ?X"
    by blast
  from t ne [OF lt] have b: "fst (combine passthrough (sparseLinear ?S) (hd (models_t (learner ?S)))
            0 ?X ?W) = dense_design ?X ?W"
    by blast
  from t ne [OF my] have c: "fst (combine passthrough (sparseLinear ?D) (hd (models_y (learner ?D)))
            0 ?X ?W) = dense_design ?X ?W"
    by blast
  from t ne [OF mt] have e: "fst (combine passthrough (sparseLinear ?D) (hd (models_t (learner ?D)))
            0 ?X ?W) = dense_design ?X ?W"
    by blast
  from p ly lt my mt a b c e show ?thesis
    by (simp only: s d) simp
qed

text \<open>
  \<^verbatim>\<open>fit\<close> and \<^verbatim>\<open>predict\<close> of a nuisance wrapper hand the wrapped model the design of
  \<^verbatim>\<open>_combine\<close>, and leave the featurizer as \<^verbatim>\<open>_combine\<close> left it.
\<close>

lemma FirstStageWrapper_predict_design:
  "FirstStageWrapper_predict ft sp ops w z X W
     = (and_then (fst (combine ft sp w z X W)) (mpredict ops (model w)), w,
        snd (combine ft sp w z X W))"
  by (simp add: FirstStageWrapper_predict_def and_then_def split: prod.splits sum.splits)

lemma FirstStageWrapper_fit_design:
  "FirstStageWrapper_fit ft sp ops w z X W Target
     = (case fst (combine ft sp w z X W) of
          Inl e \<Rightarrow> (Some e, w, snd (combine ft sp w z X W))
        | Inr design \<Rightarrow>
            (fst (mfit ops (model w) design Target),
             w\<lparr>model := snd (mfit ops (model w) design Target)\<rparr>,
             snd (combine ft sp w z X W)))"
  by (simp add: FirstStageWrapper_fit_def split: prod.splits sum.splits)

text \<open>
  The final wrapper's \<^verbatim>\<open>predict\<close> and the nuisance wrappers work on one featurizer: the
  state that a query leaves in it is the state that the next call of a nuisance wrapper
  starts from.
\<close>

lemma query_then_nuisance_predict:
  assumes "DML_const_marginal_effect ft ops self X_opt = (r, self')"
  shows "shared_featurizer self' = featurizer (snd (FinalWrapper_predict ft ops (model_final (learner self))
                                     (case X_opt of None \<Rightarrow> ones [1, 1] | Some X \<Rightarrow> X)))
       \<and> models_y_predict ft ops_y self' idx X W
           = (if idx < length (models_y (learner self'))
              then (case FirstStageWrapper_predict ft (sparseLinear self') ops_y
                           (models_y (learner self') ! idx) (shared_featurizer self') X W of
                      (r, w, z) \<Rightarrow> (r, set_shared_featurizer z self'))
              else (Inl IndexError, self'))"
  using assms
  by (auto simp: DML_const_marginal_effect_def RLearner_const_marginal_effect_def
      FinalWrapper_ops_def shared_featurizer_def models_y_predict_def Let_def split: prod.splits)

subsection \<open>The coefficients\<close>

lemma filter_nonneg_map_int: "filter (\<lambda>d. 0 \<le> d) (map int xs) = map int xs"
  by (induction xs) auto

lemma filter_neg_map_int: "filter (\<lambda>d. d < 0) (map int xs) = []"
  by (induction xs) auto

lemma nat_comp_int: "nat \<circ> int = id"
  by auto

lemma infer_comp_int: "(\<lambda>d. if d < 0 then u else nat d) \<circ> int = id"
  by auto

lemma reshape_trailing_unknown:
  assumes "prod_list (shape c) = prod_list ks * width" and "0 < prod_list ks"
  shows "reshape c (map int ks @ [- 1]) = Inr (NDArray (ks @ [width]) (data c))"
  using assms
  by (simp add: reshape_def Let_def filter_nonneg_map_int filter_neg_map_int nat_comp_int
      infer_comp_int)

text \<open>
  C8. On a fitted estimator whose wrapped final model has coefficients, \<^verbatim>\<open>coef_\<close>
  returns them, in the same order, in the shape \<open>d_y @ d_t @ [width]\<close>, where \<open>d_y\<close> and
  \<open>d_t\<close> are the trailing shapes recorded by \<^verbatim>\<open>fit\<close> (empty for a vector, so that
  the axis is absent); when the wrapped model has no attribute \<^verbatim>\<open>coef_\<close> the access
  fails with \<^verbatim>\<open>AttributeError\<close>.
\<close>

theorem coef_reshaped:
  assumes "d_y (model_final (learner self)) = Some dy"
    and "d_t (model_final (learner self)) = Some dt"
  shows "(\<forall>c width. mcoef ops (final_model (model_final (learner self))) = Some c
            \<and> prod_list (shape c) = prod_list dy * prod_list dt * width
            \<and> 0 < prod_list dy * prod_list dt
           \<longrightarrow> DMLCateEstimatorBase_coef ops self = Inr (NDArray (dy @ dt @ [width]) (data c)))
       \<and> (mcoef ops (final_model (model_final (learner self))) = None
           \<longrightarrow> DMLCateEstimatorBase_coef ops self = Inl (AttributeError ''coef_''))"
proof (intro conjI allI impI)
  fix c width
  assume a: "mcoef ops (final_model (model_final (learner self))) = Some c
            \<and> prod_list (shape c) = prod_list dy * prod_list dt * width
            \<and> 0 < prod_list dy * prod_list dt"
  have "reshape c (map int (dy @ dt) @ [- 1]) = Inr (NDArray ((dy @ dt) @ [width]) (data c))"
    using a by (intro reshape_trailing_unknown) simp_all
  then show "DMLCateEstimatorBase_coef ops self = Inr (NDArray (dy @ dt @ [width]) (data c))"
    using a assms by (simp add: DMLCateEstimatorBase_coef_def FinalWrapper_coef_def)
next
  assume "mcoef ops (final_model (model_final (learner self))) = None"
  then show "DMLCateEstimatorBase_coef ops self = Inl (AttributeError ''coef_'')"
    by (simp add: DMLCateEstimatorBase_coef_def FinalWrapper_coef_def)
qed

theorem coef_reshaped_witness:
  "DMLCateEstimatorBase_coef fixed_linear_model
     \<lparr>learner = \<lparr>models_y = [] :: unit FirstStageWrapper list,
                 models_t = [] :: unit FirstStageWrapper list,
                 model_final = \<lparr>d_t = Some [2], d_y = Some [], 
                                 final_model = NDArray [4] [1, 2, 3, 4 :: int],
                                 featurizer = 0 :: nat\<rparr>,
                 n_splits = 2\<rparr>,
      sparseLinear = False\<rparr>
   = Inr (NDArray [2, 2] [1, 2, 3, 4])
   \<and> DMLCateEstimatorBase_coef (zero_model :: (nat list, int) model_ops)
     \<lparr>learner = \<lparr>models_y = [] :: unit FirstStageWrapper list,
                 models_t = [] :: unit FirstStageWrapper list,
                 model_final = \<lparr>d_t = Some [2], d_y = Some [],
                                 final_model = [],
                                 featurizer = 0 :: nat\<rparr>,
                 n_splits = 2\<rparr>,
      sparseLinear = False\<rparr>
   = Inl (AttributeError ''coef_'')"
proof -
  let ?e1 = "\<lparr>learner = \<lparr>models_y = [] :: unit FirstStageWrapper list,
                 models_t = [] :: unit FirstStageWrapper list,
                 model_final = \<lparr>d_t = Some [2], d_y = Some [], 
                                 final_model = NDArray [4] [1, 2, 3, 4 :: int],
                                 featurizer = 0 :: nat\<rparr>,
                 n_splits = 2\<rparr>,
      sparseLinear = False\<rparr>"
  let ?e2 = "\<lparr>learner = \<lparr>models_y = [] :: unit FirstStageWrapper list,
                 models_t = [] :: unit FirstStageWrapper list,
                 model_final = \<lparr>d_t = Some [2], d_y = Some [],
                                 final_model = [] :: nat list,
                                 featurizer = 0 :: nat\<rparr>,
                 n_splits = 2\<rparr>,
      sparseLinear = False\<rparr>"
  have a: "DMLCateEstimatorBase_coef fixed_linear_model ?e1 = Inr (NDArray [2, 2] [1, 2, 3, 4])"
    using coef_reshaped [where self = ?e1 and dy = "[]" and dt = "[2]" and ops = fixed_linear_model]
    by (simp add: fixed_linear_model_def)
  have b: "DMLCateEstimatorBase_coef (zero_model :: (nat list, int) model_ops) ?e2
             = Inl (AttributeError ''coef_'')"
    using coef_reshaped [where self = ?e2 and dy = "[]" and dt = "[2]"
        and ops = "zero_model :: (nat list, int) model_ops"]
    by (simp add: zero_model_def)
  from a b show ?thesis by simp
qed

subsection \<open>The shape of the effect tensor\<close>

lemma reshape_leading_unknown:
  assumes "prod_list (shape c) = u * prod_list ks" and "0 < prod_list ks"
  shows "reshape c (- 1 # map int ks) = Inr (NDArray (u # ks) (data c))"
  using assms
  by (simp add: reshape_def Let_def filter_nonneg_map_int filter_neg_map_int nat_comp_int
      infer_comp_int)

lemma reshape_rows_unknown:
  assumes "prod_list (shape c) = r * w" and "0 < r"
  shows "reshape c [int r, - 1] = Inr (NDArray [r, w] (data c))"
  using assms by (simp add: reshape_def Let_def)

lemma reshape_flat:
  "reshape c [1, - 1] = Inr (NDArray [1, prod_list (shape c)] (data c))"
  by (simp add: reshape_def Let_def)

lemma shape_kron_matrices:
  assumes "shape a = [1, q]" and "shape b = [m, f]"
  shows "shape (kron a b) = [m, q * f]"
  using assms by (simp add: kron_def Let_def ndim_def)

lemma shape_transpose_021:
  assumes "shape a = [m, k, l]"
  shows "\<exists>E. transpose_nd a [0, 2, 1] = Inr E \<and> shape E = [m, l, k]"
  using assms by (simp add: transpose_nd_def Let_def ndim_def)

lemma short_shape_cases:
  assumes "length (d :: nat list) \<le> 1"
  obtains "d = []" | k where "d = [k]"
  using assms by (cases d) (auto simp: length_Suc_conv)

lemma FinalWrapper_predict_shape:
  assumes dt: "d_t w = Some dt" and dy: "d_y w = Some dy"
    and lt: "length dt \<le> 1" and ly: "length dy \<le> 1"
    and pt: "0 \<notin> set dt" and py: "0 \<notin> set dy"
    and X: "shape (X :: 'a::{times,zero,one} ndarray) = m # xs" and m: "0 < m"
    and F: "ft (featurizer w) X = (Inr F, z)" and sF: "shape F = [m, f]"
    and pred: "\<forall>D. shape D = [prod_list dt * m, prod_list dt * f] \<longrightarrow>
                 (\<exists>P. mpredict ops (final_model w) D = Inr P
                      \<and> shape P = (prod_list dt * m) # dy)"
  shows "\<exists>E. FinalWrapper_predict ft ops w X = (Inr E, w\<lparr>featurizer := z\<rparr>)
              \<and> shape E = m # dy @ dt"
proof -
  define ke where "ke = (if dt \<noteq> [] then hd dt else 1)"
  define eye0 :: "'a ndarray" where "eye0 = (if dt \<noteq> [] then eye (hd dt) else NDArray [1] [1])"
  have ke_prod: "prod_list dt = ke"
    using lt by (rule short_shape_cases) (simp_all add: ke_def)
  have ke_pos: "0 < ke"
    using lt pt by (rule_tac short_shape_cases [of dt]) (simp_all add: ke_def)
  have py': "0 < prod_list dy"
    using ly py by (rule_tac short_shape_cases [of dy]) simp_all
  have "prod_list (shape eye0) = ke * ke"
    by (simp add: eye0_def ke_def eye_def)
  then obtain fe where flat: "reshape eye0 [1, - 1] = Inr fe" and sfe: "shape fe = [1, ke * ke]"
    by (simp add: reshape_flat)
  define K where "K = kron fe F"
  have sK: "shape K = [m, ke * ke * f]"
    unfolding K_def using sfe sF by (rule shape_kron_matrices)
  have "prod_list (shape K) = (ke * m) * (ke * f)"
    by (simp add: sK)
  moreover have "0 < ke * m" using ke_pos m by simp
  ultimately have "reshape K [int (ke * m), - 1] = Inr (NDArray [ke * m, ke * f] (data K))"
    by (rule reshape_rows_unknown)
  then obtain XT where XT: "reshape K [int (ke * m), - 1] = Inr XT" and sXT: "shape XT = [ke * m, ke * f]"
    by simp
  from pred sXT obtain P where P: "mpredict ops (final_model w) XT = Inr P"
    and sP: "shape P = (ke * m) # dy"
    unfolding ke_prod by blast
  have "prod_list (shape P) = m * prod_list (dt @ dy)"
    using sP ke_prod by simp
  moreover have "0 < prod_list (dt @ dy)"
    using ke_prod ke_pos py' by simp
  ultimately have eff: "reshape P (- 1 # map int (dt @ dy)) = Inr (NDArray (m # dt @ dy) (data P))"
    by (rule reshape_leading_unknown)
  have run: "FinalWrapper_predict ft ops w X =
     ((if dt \<noteq> [] \<and> dy \<noteq> [] then transpose_nd (NDArray (m # dt @ dy) (data P)) [0, 2, 1]
       else Inr (NDArray (m # dt @ dy) (data P))), w\<lparr>featurizer := z\<rparr>)"
    using dt dy flat F XT P eff
    by (simp add: FinalWrapper_predict_def eye0_def [symmetric] ke_def [symmetric]
        K_def [symmetric] dim0_def X and_then_def)
  show ?thesis
  proof (cases "dt \<noteq> [] \<and> dy \<noteq> []")
    case True
    with lt ly obtain k l where kl: "dt = [k]" "dy = [l]"
      by (metis short_shape_cases)
    then have "shape (NDArray (m # dt @ dy) (data P)) = [m, k, l]" by simp
    from shape_transpose_021 [OF this] obtain E
      where "transpose_nd (NDArray (m # dt @ dy) (data P)) [0, 2, 1] = Inr E" "shape E = [m, l, k]"
      by blast
    then show ?thesis using True kl by (simp add: run)
  next
    case False
    then have "m # dt @ dy = m # dy @ dt" by auto
    then show ?thesis using False by (auto simp: run)
  qed
qed

text \<open>What \<^verbatim>\<open>fit\<close> of the final wrapper records, whether or not the rest of it succeeds.\<close>

lemma FinalWrapper_fit_records_shapes:
  "d_t (snd (FinalWrapper_fit ft ops w X T_res Y_res)) = Some (tl (shape T_res))
   \<and> d_y (snd (FinalWrapper_fit ft ops w X T_res Y_res)) = Some (tl (shape Y_res))"
  by (simp add: FinalWrapper_fit_def Let_def split: prod.splits sum.splits)

text \<open>
  C2 (amended). On a fitted estimator whose recorded trailing shapes \<open>d_t\<close> and \<open>d_y\<close>
  (those of \<open>T_res\<close> and \<open>Y_res\<close> at fit time) are empty, for a vector, or one positive
  length, let the query \<open>X\<close> have \<open>m \<ge> 1\<close> rows and any shape otherwise, let the
  featurizer return for it a matrix of \<open>m\<close> rows of some width \<open>f\<close>, and let the wrapped
  final model accept the design built from it, predicting for that design of
  \<open>d_t * m\<close> rows and \<open>d_t * f\<close> columns (\<open>d_t\<close> read as one for a vector) an array of
  shape \<open>(d_t * m) # d_y\<close>. Then \<^verbatim>\<open>const_marginal_effect(X)\<close> returns an array of
  shape \<open>m # d_y @ d_t\<close>: \<open>(m, d_y, d_t)\<close> when both were matrices, and with the axis
  of a vector absent.
\<close>

theorem const_marginal_effect_shape:
  assumes "d_t (model_final self) = Some dt" and "d_y (model_final self) = Some dy"
    and "length dt \<le> 1" and "length dy \<le> 1" and "0 \<notin> set dt" and "0 \<notin> set dy"
    and "shape (X :: 'a::{times,zero,one} ndarray) = m # xs" and "0 < m"
    and "fst (ft (featurizer (model_final self)) X) = Inr F" and "shape F = [m, f]"
    and "\<forall>D. shape D = [prod_list dt * m, prod_list dt * f] \<longrightarrow>
            (\<exists>P. mpredict ops (final_model (model_final self)) D = Inr P
                 \<and> shape P = (prod_list dt * m) # dy)"
  shows "\<exists>E. fst (RLearner_const_marginal_effect (FinalWrapper_ops ft ops) self (Some X)) = Inr E
              \<and> shape E = m # dy @ dt"
proof -
  obtain z where "ft (featurizer (model_final self)) X = (Inr F, z)"
    using assms(9) by (cases "ft (featurizer (model_final self)) X") simp
  from FinalWrapper_predict_shape [where w = "model_final self" and ft = ft and ops = ops,
      OF assms(1-8) this assms(10,11)]
  show ?thesis
    by (auto simp: RLearner_const_marginal_effect_def FinalWrapper_ops_def)
qed

theorem const_marginal_effect_shape_witness:
  "snd (FinalWrapper_fit passthrough checked_linear_model
          (FinalWrapper_new (NDArray [2, 3] [1, 2, 3, 4, 5, 6 :: int]) (0 :: nat))
          (NDArray [2, 1] [5, 7]) (NDArray [2, 3] [1, 0, 0, 0, 1, 0]) (NDArray [2, 2] [1, 2, 3, 4]))
     = \<lparr>d_t = Some [3], d_y = Some [2], final_model = NDArray [2, 3] [1, 2, 3, 4, 5, 6],
        featurizer = 1\<rparr>
   \<and> (\<exists>E. fst (RLearner_const_marginal_effect (FinalWrapper_ops passthrough checked_linear_model)
         \<lparr>models_y = [] :: unit list, models_t = [] :: unit list,
          model_final = \<lparr>d_t = Some [3], d_y = Some [2],
                          final_model = NDArray [2, 3] [1, 2, 3, 4, 5, 6 :: int],
                          featurizer = 1 :: nat\<rparr>,
          n_splits = 2\<rparr> (Some (NDArray [2, 1] [5, 7]))) = Inr E \<and> shape E = [2, 2, 3])
   \<and> fst (RLearner_const_marginal_effect (FinalWrapper_ops passthrough checked_linear_model)
         \<lparr>models_y = [] :: unit list, models_t = [] :: unit list,
          model_final = \<lparr>d_t = Some [3], d_y = Some [2],
                          final_model = NDArray [2, 3] [1, 2, 3, 4, 5, 6 :: int],
                          featurizer = 1 :: nat\<rparr>,
          n_splits = 2\<rparr> (Some (NDArray [2, 1] [5, 7])))
       = Inr (NDArray [2, 2, 3] [5, 10, 15, 20, 25, 30, 7, 14, 21, 28, 35, 42])"
proof -
  let ?E = "\<lparr>models_y = [] :: unit list, models_t = [] :: unit list,
          model_final = \<lparr>d_t = Some [3], d_y = Some [2],
                          final_model = NDArray [2, 3] [1, 2, 3, 4, 5, 6 :: int],
                          featurizer = 1 :: nat\<rparr>,
          n_splits = 2\<rparr>"
  have fit: "snd (FinalWrapper_fit passthrough checked_linear_model
          (FinalWrapper_new (NDArray [2, 3] [1, 2, 3, 4, 5, 6 :: int]) (0 :: nat))
          (NDArray [2, 1] [5, 7]) (NDArray [2, 3] [1, 0, 0, 0, 1, 0]) (NDArray [2, 2] [1, 2, 3, 4]))
     = \<lparr>d_t = Some [3], d_y = Some [2], final_model = NDArray [2, 3] [1, 2, 3, 4, 5, 6],
        featurizer = 1\<rparr>"
    by code_simp
  have run: "fst (RLearner_const_marginal_effect (FinalWrapper_ops passthrough checked_linear_model)
               ?E (Some (NDArray [2, 1] [5, 7])))
       = Inr (NDArray [2, 2, 3] [5, 10, 15, 20, 25, 30, 7, 14, 21, 28, 35, 42])"
    by code_simp
  have "\<exists>E. fst (RLearner_const_marginal_effect (FinalWrapper_ops passthrough checked_linear_model)
               ?E (Some (NDArray [2, 1] [5, 7]))) = Inr E \<and> shape E = 2 # [2] @ [3]"
    by (rule const_marginal_effect_shape [where xs = "[1]" and F = "NDArray [2, 1] [5, 7]" and f = 1])
       (simp_all add: passthrough_def checked_linear_model_def linear_predict_def ndim_def)
  then show ?thesis using run fit by simp
qed

text \<open>
  A query without rows is refused, whatever the fitted shapes: numpy does not infer the
  \<open>-1\<close> of \<^verbatim>\<open>reshape(..., (d_t * 0, -1))\<close>. And a query of another width than the one
  the final model was fit for is refused by a final model that validates its input.
\<close>

theorem const_marginal_effect_no_rows_counterexample:
  "fst (RLearner_const_marginal_effect (FinalWrapper_ops passthrough checked_linear_model)
         \<lparr>models_y = [] :: unit list, models_t = [] :: unit list,
          model_final = \<lparr>d_t = Some [3], d_y = Some [2],
                          final_model = NDArray [2, 3] [1, 2, 3, 4, 5, 6 :: int],
                          featurizer = 1 :: nat\<rparr>,
          n_splits = 2\<rparr> (Some (NDArray [0, 1] [])))
     = Inl ValueError
   \<and> fst (RLearner_const_marginal_effect (FinalWrapper_ops passthrough checked_linear_model)
         \<lparr>models_y = [] :: unit list, models_t = [] :: unit list,
          model_final = \<lparr>d_t = Some [3], d_y = Some [2],
                          final_model = NDArray [2, 3] [1, 2, 3, 4, 5, 6 :: int],
                          featurizer = 1 :: nat\<rparr>,
          n_splits = 2\<rparr> (Some (NDArray [2, 2] [5, 6, 7, 8])))
     = Inl ValueError"
  by code_simp

subsection \<open>Repeated queries\<close>

lemma predict_keeps_trained:
  "d_t (snd (FinalWrapper_predict ft ops w X)) = d_t w
   \<and> d_y (snd (FinalWrapper_predict ft ops w X)) = d_y w
   \<and> final_model (snd (FinalWrapper_predict ft ops w X)) = final_model w"
  by (simp add: FinalWrapper_predict_def split: option.splits sum.splits prod.splits)

lemma predict_refits_featurizer:
  "featurizer (snd (FinalWrapper_predict ft ops w X))
     = (if d_t w = None then featurizer w else snd (ft (featurizer w) X))"
  by (simp add: FinalWrapper_predict_def reshape_flat split: option.splits sum.splits prod.splits)

lemma predict_result_cong:
  assumes "fst (ft (featurizer w) X) = fst (ft (featurizer w') X)"
    and "d_t w = d_t w'" and "d_y w = d_y w'" and "final_model w = final_model w'"
  shows "fst (FinalWrapper_predict ft ops w X) = fst (FinalWrapper_predict ft ops w' X)"
proof -
  obtain r z where a: "ft (featurizer w) X = (r, z)" by (cases "ft (featurizer w) X")
  obtain r' z' where b: "ft (featurizer w') X = (r', z')" by (cases "ft (featurizer w') X")
  from assms(1) a b have "r' = r" by simp
  with a b assms(2-4) show ?thesis
    by (simp add: FinalWrapper_predict_def split: option.splits sum.splits)
qed

text \<open>
  C9 (amended). Let the featurizer's \<^verbatim>\<open>fit_transform\<close> be idempotent on the query: called
  again on the same input, in the state the first call left, it returns the same result
  (the wrapped final model's \<^verbatim>\<open>predict\<close> reads the model and is a function of it and of
  the design). Then a second \<^verbatim>\<open>const_marginal_effect\<close> on the same \<open>X\<close> returns what the
  first returned, and neither call changes the nuisance models, the number of splits, the
  recorded shapes \<open>d_t\<close> and \<open>d_y\<close> or the wrapped final model. The featurizer is not
  left alone: a call on a fitted estimator fits it again on the query and leaves it in
  the state that \<^verbatim>\<open>fit_transform\<close> on the query produces.
\<close>

theorem const_marginal_effect_idempotent:
  assumes "\<forall>z. fst (ft (snd (ft z (case X_opt of None \<Rightarrow> ones [1, 1] | Some X \<Rightarrow> X)))
                      (case X_opt of None \<Rightarrow> ones [1, 1] | Some X \<Rightarrow> X))
               = fst (ft z (case X_opt of None \<Rightarrow> ones [1, 1] | Some X \<Rightarrow> X))"
  shows "fst (RLearner_const_marginal_effect (FinalWrapper_ops ft ops)
                (snd (RLearner_const_marginal_effect (FinalWrapper_ops ft ops) self X_opt)) X_opt)
           = fst (RLearner_const_marginal_effect (FinalWrapper_ops ft ops) self X_opt)
       \<and> (\<forall>self'. self' = snd (RLearner_const_marginal_effect (FinalWrapper_ops ft ops) self X_opt)
              \<or> self' = snd (RLearner_const_marginal_effect (FinalWrapper_ops ft ops)
                   (snd (RLearner_const_marginal_effect (FinalWrapper_ops ft ops) self X_opt)) X_opt)
            \<longrightarrow> models_y self' = models_y self \<and> models_t self' = models_t self
                \<and> n_splits self' = n_splits self
                \<and> d_t (model_final self') = d_t (model_final self)
                \<and> d_y (model_final self') = d_y (model_final self)
                \<and> final_model (model_final self') = final_model (model_final self))
       \<and> featurizer (model_final
            (snd (RLearner_const_marginal_effect (FinalWrapper_ops ft ops) self X_opt)))
           = (if d_t (model_final self) = None then featurizer (model_final self)
              else snd (ft (featurizer (model_final self))
                         (case X_opt of None \<Rightarrow> ones [1, 1] | Some X \<Rightarrow> X)))"
proof -
  define X where "X = (case X_opt of None \<Rightarrow> ones [1, 1] | Some X \<Rightarrow> X)"
  define w where "w = model_final self"
  define w1 where "w1 = snd (FinalWrapper_predict ft ops w X)"
  define w2 where "w2 = snd (FinalWrapper_predict ft ops w1 X)"
  have idem: "fst (ft (snd (ft z X)) X) = fst (ft z X)" for z
    using assms unfolding X_def by blast
  have s1: "RLearner_const_marginal_effect (FinalWrapper_ops ft ops) self X_opt
              = (fst (FinalWrapper_predict ft ops w X), self\<lparr>model_final := w1\<rparr>)"
    by (simp add: RLearner_const_marginal_effect_def FinalWrapper_ops_def X_def w_def w1_def
        split: prod.splits)
  have s2: "RLearner_const_marginal_effect (FinalWrapper_ops ft ops) (self\<lparr>model_final := w1\<rparr>) X_opt
              = (fst (FinalWrapper_predict ft ops w1 X), self\<lparr>model_final := w2\<rparr>)"
    by (simp add: RLearner_const_marginal_effect_def FinalWrapper_ops_def X_def w2_def
        split: prod.splits)
  have k1: "d_t w1 = d_t w \<and> d_y w1 = d_y w \<and> final_model w1 = final_model w"
    unfolding w1_def by (rule predict_keeps_trained)
  have k2: "d_t w2 = d_t w1 \<and> d_y w2 = d_y w1 \<and> final_model w2 = final_model w1"
    unfolding w2_def by (rule predict_keeps_trained)
  have f1: "featurizer w1 = (if d_t w = None then featurizer w else snd (ft (featurizer w) X))"
    unfolding w1_def by (rule predict_refits_featurizer)
  have "fst (ft (featurizer w1) X) = fst (ft (featurizer w) X)"
    by (simp add: f1 idem)
  then have r: "fst (FinalWrapper_predict ft ops w1 X) = fst (FinalWrapper_predict ft ops w X)"
    using k1 by (intro predict_result_cong) simp_all
  show ?thesis
    using r k1 k2 f1 by (auto simp: s1 s2 w_def X_def)
qed

theorem const_marginal_effect_idempotent_witness:
  "fst (RLearner_const_marginal_effect (FinalWrapper_ops passthrough fixed_linear_model)
          (snd (RLearner_const_marginal_effect (FinalWrapper_ops passthrough fixed_linear_model)
             \<lparr>models_y = [] :: unit list, models_t = [] :: unit list,
              model_final = \<lparr>d_t = Some [], d_y = Some [], final_model = NDArray [1] [3 :: int],
                              featurizer = 0 :: nat\<rparr>,
              n_splits = 2\<rparr> (Some (NDArray [2, 1] [1, 2])))) (Some (NDArray [2, 1] [1, 2])))
     = Inr (NDArray [2] [3, 6])
   \<and> RLearner_const_marginal_effect (FinalWrapper_ops passthrough fixed_linear_model)
         \<lparr>models_y = [] :: unit list, models_t = [] :: unit list,
          model_final = \<lparr>d_t = Some [], d_y = Some [], final_model = NDArray [1] [3 :: int],
                          featurizer = 0 :: nat\<rparr>,
          n_splits = 2\<rparr> (Some (NDArray [2, 1] [1, 2]))
     = (Inr (NDArray [2] [3, 6]),
         \<lparr>models_y = [] :: unit list, models_t = [] :: unit list,
          model_final = \<lparr>d_t = Some [], d_y = Some [], final_model = NDArray [1] [3 :: int],
                          featurizer = 1 :: nat\<rparr>,
          n_splits = 2\<rparr>)"
proof -
  let ?E = "\<lparr>models_y = [] :: unit list, models_t = [] :: unit list,
          model_final = \<lparr>d_t = Some [], d_y = Some [], final_model = NDArray [1] [3 :: int],
                          featurizer = 0 :: nat\<rparr>,
          n_splits = 2\<rparr>"
  have h: "\<forall>z. fst ((passthrough :: (nat, int) fit_transform)
                      (snd (passthrough z (case Some (NDArray [2, 1] [1, 2]) of
                                             None \<Rightarrow> ones [1, 1] | Some X \<Rightarrow> X)))
                      (case Some (NDArray [2, 1] [1, 2]) of None \<Rightarrow> ones [1, 1] | Some X \<Rightarrow> X))
               = fst (passthrough z (case Some (NDArray [2, 1] [1, 2]) of
                                       None \<Rightarrow> ones [1, 1] | Some X \<Rightarrow> X))"
    by (simp add: passthrough_def)
  have run: "RLearner_const_marginal_effect (FinalWrapper_ops passthrough fixed_linear_model)
         ?E (Some (NDArray [2, 1] [1, 2]))
     = (Inr (NDArray [2] [3, 6]),
         \<lparr>models_y = [] :: unit list, models_t = [] :: unit list,
          model_final = \<lparr>d_t = Some [], d_y = Some [], final_model = NDArray [1] [3 :: int],
                          featurizer = 1 :: nat\<rparr>,
          n_splits = 2\<rparr>)"
    by code_simp
  from const_marginal_effect_idempotent [where ft = "passthrough :: (nat, int) fit_transform"
      and X_opt = "Some (NDArray [2, 1] [1, 2])" and ops = fixed_linear_model and self = ?E, OF h]
  have "fst (RLearner_const_marginal_effect (FinalWrapper_ops passthrough fixed_linear_model)
          (snd (RLearner_const_marginal_effect (FinalWrapper_ops passthrough fixed_linear_model)
             ?E (Some (NDArray [2, 1] [1, 2])))) (Some (NDArray [2, 1] [1, 2])))
     = fst (RLearner_const_marginal_effect (FinalWrapper_ops passthrough fixed_linear_model)
             ?E (Some (NDArray [2, 1] [1, 2])))"
    by (rule conjunct1)
  then show ?thesis unfolding run by simp
qed

text \<open>
  The query changes the estimator: the featurizer, which here remembers the width of its
  last input and is idempotent, goes from the state \<open>0\<close> to the state \<open>1\<close>.
\<close>

theorem const_marginal_effect_mutates_counterexample:
  "snd (RLearner_const_marginal_effect (FinalWrapper_ops passthrough fixed_linear_model)
         \<lparr>models_y = [] :: unit list, models_t = [] :: unit list,
          model_final = \<lparr>d_t = Some [], d_y = Some [], final_model = NDArray [1] [3 :: int],
                          featurizer = 0 :: nat\<rparr>,
          n_splits = 2\<rparr> (Some (NDArray [2, 1] [1, 2])))
     = \<lparr>models_y = [] :: unit list, models_t = [] :: unit list,
          model_final = \<lparr>d_t = Some [], d_y = Some [], final_model = NDArray [1] [3 :: int],
                          featurizer = 1 :: nat\<rparr>,
          n_splits = 2\<rparr>
   \<and> snd (RLearner_const_marginal_effect (FinalWrapper_ops passthrough fixed_linear_model)
         \<lparr>models_y = [] :: unit list, models_t = [] :: unit list,
          model_final = \<lparr>d_t = Some [], d_y = Some [], final_model = NDArray [1] [3 :: int],
                          featurizer = 0 :: nat\<rparr>,
          n_splits = 2\<rparr> (Some (NDArray [2, 1] [1, 2])))
     \<noteq> \<lparr>models_y = [] :: unit list, models_t = [] :: unit list,
          model_final = \<lparr>d_t = Some [], d_y = Some [], final_model = NDArray [1] [3 :: int],
                          featurizer = 0 :: nat\<rparr>,
          n_splits = 2\<rparr>"
  by code_simp

subsection \<open>The kernel configuration's featurizer\<close>

text \<open>
  C7 (what the code does). Constructing the kernel estimator fails for every choice of
  arguments with \<^verbatim>\<open>NameError\<close>, since \<^verbatim>\<open>defaultdict\<close> is not imported; and on a
  \<^verbatim>\<open>RandomFeatures\<close> object as the constructor would have built it, the first
  \<^verbatim>\<open>fit_transform\<close> on an input of any width fails with \<^verbatim>\<open>TypeError\<close> without
  drawing or caching anything, since the default factories take an argument. No
  projection is ever drawn, so none is reused.
\<close>

theorem kernel_featurizer_fails:
  "KernelDMLCateEstimator_init clone_y clone_t clone_m clone_z normal uniform
     model_y model_t final splits = Inl (NameError ''defaultdict'')
   \<and> RandomFeatures_fit_transform project
       (\<lparr>omegas = \<lparr>default_factory = Lambda1 normal, items = Map.empty\<rparr>,
         biases = \<lparr>default_factory = Lambda1 uniform, items = Map.empty\<rparr>\<rparr>, rng)
       (NDArray [n, d_x] xs)
     = (Inl TypeError,
        \<lparr>omegas = \<lparr>default_factory = Lambda1 normal, items = Map.empty\<rparr>,
         biases = \<lparr>default_factory = Lambda1 uniform, items = Map.empty\<rparr>\<rparr>, rng)"
  by (simp add: KernelDMLCateEstimator_init_def RandomFeatures_init_def global_name_def
      module_names_def and_then_def RandomFeatures_fit_transform_def defaultdict_getitem_def)

subsection \<open>The Kronecker design of the final wrapper\<close>

















subsection \<open>The residuals of the cross-fitting loop\<close>






























end
